theory Spec2Isabelle
  imports Main
begin

section \<open>Python values shared by the three modules\<close>

text \<open>
  Exceptions are values. The constructors are the exception classes the sources name:
  \<open>oracledb.DatabaseError\<close> (the expected data-access failure), \<open>ValueError\<close>, the two
  fatal errors of \<open>error_handler.py\<close> (with the message and the \<open>__cause__\<close> set by
  \<open>raise ... from e\<close>), and \<open>Exception\<close> for every other subclass of \<open>Exception\<close>.
  A \<open>DatabaseError\<close> is raised by the driver with exactly one argument, the error object,
  of which the sources read only \<open>message\<close>: the constructor carries that message, so
  that \<open>error_obj, = e.args\<close> followed by \<open>error_obj.message\<close> is total.
  Exceptions outside \<open>Exception\<close> (\<open>KeyboardInterrupt\<close>, \<open>SystemExit\<close>) are not modelled.
\<close>

datatype exn =
    DatabaseError string
  | ValueError string
  | StagingInsertError string exn
  | MergeOperationError string exn
  | Exception string

text \<open>\<open>str(e)\<close>: the message of the exception.\<close>

fun str_exn :: "exn \<Rightarrow> string" where
  "str_exn (DatabaseError msg) = msg"
| "str_exn (ValueError msg) = msg"
| "str_exn (StagingInsertError msg cause) = msg"
| "str_exn (MergeOperationError msg cause) = msg"
| "str_exn (Exception msg) = msg"

text \<open>\<open>isinstance(e, oracledb.DatabaseError)\<close>: what the first \<open>except\<close> clause matches.\<close>

fun is_DatabaseError :: "exn \<Rightarrow> bool" where
  "is_DatabaseError (DatabaseError msg) = True"
| "is_DatabaseError (ValueError msg) = False"
| "is_DatabaseError (StagingInsertError msg cause) = False"
| "is_DatabaseError (MergeOperationError msg cause) = False"
| "is_DatabaseError (Exception msg) = False"

text \<open>A call either returns a value or raises.\<close>

datatype 'a result = Returned 'a | Raised exn

text \<open>
  A Python \<open>dict\<close> keeps its keys in insertion order: an association list with
  distinct keys. \<open>d[k] = v\<close> replaces the value of a key already present, in place,
  and appends a new key at the end.
\<close>

fun dict_set :: "'k \<Rightarrow> 'v \<Rightarrow> ('k \<times> 'v) list \<Rightarrow> ('k \<times> 'v) list" where
  "dict_set k v [] = [(k, v)]"
| "dict_set k v ((k', v') # d) =
     (if k = k' then (k, v) # d else (k', v') # dict_set k v d)"

text \<open>
  \<open>str.upper()\<close> on identifiers written in ASCII: the letters a to z are mapped to
  A to Z, every other character is kept.
\<close>

definition upper_char :: "char \<Rightarrow> char" where
  "upper_char c =
     (case map_of (zip ''abcdefghijklmnopqrstuvwxyz'' ''ABCDEFGHIJKLMNOPQRSTUVWXYZ'') c of
        None \<Rightarrow> c
      | Some u \<Rightarrow> u)"

definition upper :: "string \<Rightarrow> string" where
  "upper s = map upper_char s"


section \<open>data_import_logger.py\<close>

text \<open>\<open>datetime.now()\<close> is an argument of the operations that read the clock.\<close>

type_synonym datetime = int

datatype ImportStage = CSV_EXTRACTION | STAGING_INSERT | MERGE_OPERATION | VALIDATION

datatype ImportStatus = SUCCESS | WARNING | ERROR | SKIPPED

record TableImportMetrics =
  table_name :: string
  csv_file :: string
  csv_row_count :: int
  staging_inserted :: int
  staging_errors :: int
  merge_matched :: int
  merge_inserted :: int
  merge_updated :: int
  merge_errors :: int
  validation_passed :: bool
  validation_issues :: "string list"
  stage_errors :: "(ImportStage \<times> string list) list"
  start_time :: "datetime option"
  end_time :: "datetime option"

text \<open>The dataclass constructor as \<open>start_table_import\<close> calls it: the other fields take their defaults.\<close>

definition new_TableImportMetrics :: "string \<Rightarrow> string \<Rightarrow> int \<Rightarrow> datetime \<Rightarrow> TableImportMetrics" where
  "new_TableImportMetrics tname file row_count now =
     \<lparr>table_name = tname, csv_file = file, csv_row_count = row_count,
      staging_inserted = 0, staging_errors = 0,
      merge_matched = 0, merge_inserted = 0, merge_updated = 0, merge_errors = 0,
      validation_passed = False, validation_issues = [], stage_errors = [],
      start_time = Some now, end_time = None\<rparr>"

text \<open>\<open>TableImportMetrics.add_error\<close>\<close>

definition add_error :: "ImportStage \<Rightarrow> string \<Rightarrow> TableImportMetrics \<Rightarrow> TableImportMetrics" where
  "add_error stage error_msg m =
     (let present = (case map_of (stage_errors m) stage of None \<Rightarrow> [] | Some errors \<Rightarrow> errors)
      in m\<lparr>stage_errors := dict_set stage (present @ [error_msg]) (stage_errors m)\<rparr>)"

text \<open>
  \<open>TableImportMetrics.get_status\<close>. A dict is true when it has a key, a list when it
  has an element; \<open>any(self.stage_errors.values())\<close> looks for a non-empty error list.
  Falling out of the first \<open>if\<close> continues with the validation issues.
\<close>

definition get_status :: "TableImportMetrics \<Rightarrow> ImportStatus" where
  "get_status m =
     (if stage_errors m \<noteq> [] \<and> list_ex (\<lambda>errors. errors \<noteq> []) (map snd (stage_errors m))
      then ERROR
      else if validation_issues m \<noteq> [] then WARNING
      else if staging_inserted m = 0 then SKIPPED
      else SUCCESS)"

record SystemImportSummary =
  system_name :: string
  tables :: "(string \<times> TableImportMetrics) list"
  start_time :: "datetime option"
  end_time :: "datetime option"
  total_csv_rows :: int
  total_staging_inserted :: int
  total_merge_updates :: int
  total_merge_inserts :: int
  total_errors :: int
  total_warnings :: int

definition new_SystemImportSummary :: "string \<Rightarrow> SystemImportSummary" where
  "new_SystemImportSummary name =
     \<lparr>system_name = name, tables = [], start_time = None, end_time = None,
      total_csv_rows = 0, total_staging_inserted = 0, total_merge_updates = 0,
      total_merge_inserts = 0, total_errors = 0, total_warnings = 0\<rparr>"

text \<open>
  \<open>SystemImportSummary.add_table\<close>. The loop over \<open>metrics.stage_errors.values()\<close> is a
  fold that adds the length of each error list to \<open>total_errors\<close>.
\<close>

definition add_table :: "TableImportMetrics \<Rightarrow> SystemImportSummary \<Rightarrow> SystemImportSummary" where
  "add_table metrics s =
     s\<lparr>tables := dict_set (table_name metrics) metrics (tables s),
       total_csv_rows := total_csv_rows s + csv_row_count metrics,
       total_staging_inserted := total_staging_inserted s + staging_inserted metrics,
       total_merge_updates := total_merge_updates s + merge_updated metrics,
       total_merge_inserts := total_merge_inserts s + merge_inserted metrics,
       total_errors :=
         fold (\<lambda>errors total. total + int (length errors))
              (map snd (stage_errors metrics)) (total_errors s),
       total_warnings := total_warnings s + int (length (validation_issues metrics))\<rparr>"

record DataImportLogger =
  molo_summary :: SystemImportSummary
  stellar_summary :: SystemImportSummary
  current_metrics :: "TableImportMetrics option"

text \<open>\<open>DataImportLogger.__init__\<close>\<close>

definition new_DataImportLogger :: DataImportLogger where
  "new_DataImportLogger =
     \<lparr>molo_summary = new_SystemImportSummary ''MOLO'',
      stellar_summary = new_SystemImportSummary ''Stellar'',
      current_metrics = None\<rparr>"

text \<open>
  \<open>_get_summary\<close> returns a reference to one of the two summary objects of the logger,
  which the caller then mutates: the model returns which one, and \<open>update_summary\<close>
  writes through it.
\<close>

datatype summary_ref = Molo_summary | Stellar_summary

definition get_summary :: "string \<Rightarrow> summary_ref result" where
  "get_summary sysname =
     (if upper sysname = ''MOLO'' then Returned Molo_summary
      else if upper sysname = ''STELLAR'' then Returned Stellar_summary
      else Raised (ValueError (''Unknown system: '' @ sysname)))"

fun update_summary ::
  "summary_ref \<Rightarrow> (SystemImportSummary \<Rightarrow> SystemImportSummary) \<Rightarrow> DataImportLogger \<Rightarrow> DataImportLogger" where
  "update_summary Molo_summary f t = t\<lparr>molo_summary := f (molo_summary t)\<rparr>"
| "update_summary Stellar_summary f t = t\<lparr>stellar_summary := f (stellar_summary t)\<rparr>"



definition start_table_import ::
  "datetime \<Rightarrow> string \<Rightarrow> string \<Rightarrow> string \<Rightarrow> int \<Rightarrow> DataImportLogger \<Rightarrow> DataImportLogger" where
  "start_table_import now sysname tname file row_count t =
     t\<lparr>current_metrics := Some (new_TableImportMetrics tname file row_count now)\<rparr>"

text \<open>
  \<open>end_table_import\<close>: the guard on the open record comes first, then the end time is
  written into the open record, and only then is the summary looked up.
\<close>

definition end_table_import :: "datetime \<Rightarrow> string \<Rightarrow> DataImportLogger \<Rightarrow> unit result \<times> DataImportLogger" where
  "end_table_import now sysname t =
     (case current_metrics t of
        None \<Rightarrow> (Returned (), t)
      | Some m \<Rightarrow>
          (let m' = m\<lparr>TableImportMetrics.end_time := Some now\<rparr>;
               t' = t\<lparr>current_metrics := Some m'\<rparr>
           in case get_summary sysname of
                Raised e \<Rightarrow> (Raised e, t')
              | Returned r \<Rightarrow>
                  (Returned (), (update_summary r (add_table m') t')\<lparr>current_metrics := None\<rparr>)))"

definition log_staging_insert :: "int \<Rightarrow> int \<Rightarrow> DataImportLogger \<Rightarrow> DataImportLogger" where
  "log_staging_insert inserted_count error_count t =
     (case current_metrics t of
        None \<Rightarrow> t
      | Some m \<Rightarrow>
          t\<lparr>current_metrics :=
              Some (m\<lparr>staging_inserted := inserted_count, staging_errors := error_count\<rparr>)\<rparr>)"

definition log_merge_operation :: "int \<Rightarrow> int \<Rightarrow> int \<Rightarrow> int \<Rightarrow> DataImportLogger \<Rightarrow> DataImportLogger" where
  "log_merge_operation matched inserted updated error_count t =
     (case current_metrics t of
        None \<Rightarrow> t
      | Some m \<Rightarrow>
          t\<lparr>current_metrics :=
              Some (m\<lparr>merge_matched := matched, merge_inserted := inserted,
                      merge_updated := updated, merge_errors := error_count\<rparr>)\<rparr>)"

text \<open>\<open>issues\<close> defaults to \<open>None\<close>; \<open>if issues:\<close> holds for a list with an element.\<close>

definition log_validation_result :: "bool \<Rightarrow> string list option \<Rightarrow> DataImportLogger \<Rightarrow> DataImportLogger" where
  "log_validation_result passed issues t =
     (case current_metrics t of
        None \<Rightarrow> t
      | Some m \<Rightarrow>
          (let m1 = m\<lparr>validation_passed := passed\<rparr>;
               m2 = (case issues of
                       None \<Rightarrow> m1
                     | Some xs \<Rightarrow>
                         if xs \<noteq> [] then m1\<lparr>validation_issues := validation_issues m1 @ xs\<rparr>
                         else m1)
           in t\<lparr>current_metrics := Some m2\<rparr>))"

text \<open>\<open>DataImportLogger.add_error\<close>\<close>

definition logger_add_error :: "ImportStage \<Rightarrow> string \<Rightarrow> DataImportLogger \<Rightarrow> DataImportLogger" where
  "logger_add_error stage error_msg t =
     (case current_metrics t of
        None \<Rightarrow> t
      | Some m \<Rightarrow> t\<lparr>current_metrics := Some (add_error stage error_msg m)\<rparr>)"


section \<open>error_handler.py\<close>

text \<open>
  An entry of \<open>ErrorHandler.error_log\<close>, the dict built by \<open>_log_error\<close> with the keys
  \<open>type\<close>, \<open>context\<close>, \<open>message\<close> and \<open>metadata\<close>; the metadata is a dict from strings to
  the values the callers put there.
\<close>

datatype meta_value = Int_value int | Str_value string | None_value

record error_entry =
  entry_type :: string
  entry_context :: string
  entry_message :: string
  entry_metadata :: "(string \<times> meta_value) list"

definition log_error ::
  "string \<Rightarrow> string \<Rightarrow> string \<Rightarrow> (string \<times> meta_value) list \<Rightarrow> error_entry list \<Rightarrow> error_entry list" where
  "log_error error_type ctxt msg meta error_log =
     error_log @ [\<lparr>entry_type = error_type, entry_context = ctxt, entry_message = msg,
                   entry_metadata = meta\<rparr>]"

text \<open>
  The insert operation is a callable of the caller: it takes a batch of rows and
  either returns or raises, and it may change a state of its own (the database).
  \<open>op_calls\<close> records the batch of every call, in order, so that theorems can say
  how often and with what the operation was invoked.
\<close>

type_synonym ('row, 's) operation = "'row list \<Rightarrow> 's \<Rightarrow> unit result \<times> 's"

record ('row, 's) op_world =
  op_state :: 's
  op_calls :: "'row list list"

definition call_operation ::
  "('row, 's) operation \<Rightarrow> 'row list \<Rightarrow> ('row, 's) op_world \<Rightarrow> unit result \<times> ('row, 's) op_world" where
  "call_operation operation batch w =
     (case operation batch (op_state w) of
        (outcome, s') \<Rightarrow> (outcome, \<lparr>op_state = s', op_calls = op_calls w @ [batch]\<rparr>))"

text \<open>
  The loop of \<open>_insert_row_by_row\<close>, with its counters \<open>idx\<close>, \<open>success_count\<close> and
  \<open>error_count\<close>. \<open>str_row\<close> is \<open>str\<close> on a row. The \<open>except Exception\<close> of the loop
  body catches whatever the call raises.
\<close>

fun insert_rows ::
  "string \<Rightarrow> ('row, 's) operation \<Rightarrow> ('row \<Rightarrow> string) \<Rightarrow> 'row list \<Rightarrow> nat \<Rightarrow> nat \<Rightarrow> nat
   \<Rightarrow> error_entry list \<Rightarrow> ('row, 's) op_world
   \<Rightarrow> (nat \<times> nat) \<times> error_entry list \<times> ('row, 's) op_world" where
  "insert_rows tname operation str_row [] idx success_count error_count error_log w =
     ((success_count, error_count), error_log, w)"
| "insert_rows tname operation str_row (row # rest) idx success_count error_count error_log w =
     (case call_operation operation [row] w of
        (Returned u, w') \<Rightarrow>
          insert_rows tname operation str_row rest (idx + 1) (success_count + 1) error_count error_log w'
      | (Raised e, w') \<Rightarrow>
          insert_rows tname operation str_row rest (idx + 1) success_count (error_count + 1)
            (if error_count + 1 \<le> 5
             then log_error ''staging_insert'' tname (str_exn e)
                    [(''row_index'', Int_value (int idx)),
                     (''row_data'', Str_value (take 200 (str_row row)))] error_log
             else error_log)
            w')"

definition insert_row_by_row ::
  "string \<Rightarrow> ('row, 's) operation \<Rightarrow> ('row \<Rightarrow> string) \<Rightarrow> 'row list
   \<Rightarrow> error_entry list \<Rightarrow> ('row, 's) op_world
   \<Rightarrow> (nat \<times> nat) \<times> error_entry list \<times> ('row, 's) op_world" where
  "insert_row_by_row tname operation str_row data_rows error_log w =
     insert_rows tname operation str_row data_rows 0 0 0 error_log w"

text \<open>
  \<open>handle_staging_insert\<close> returns the pair of counts or raises; with the outcome come
  the error log and the world of the operation after the call.
\<close>

definition handle_staging_insert ::
  "string \<Rightarrow> ('row, 's) operation \<Rightarrow> ('row \<Rightarrow> string) \<Rightarrow> 'row list
   \<Rightarrow> error_entry list \<Rightarrow> ('row, 's) op_world
   \<Rightarrow> (nat \<times> nat) result \<times> error_entry list \<times> ('row, 's) op_world" where
  "handle_staging_insert tname operation str_row data_rows error_log w =
     (if data_rows = [] then (Returned (0, 0), error_log, w)
      else
        (case call_operation operation data_rows w of
           (Returned u, w') \<Rightarrow> (Returned (length data_rows, 0), error_log, w')
         | (Raised e, w') \<Rightarrow>
             if is_DatabaseError e
             then (case insert_row_by_row tname operation str_row data_rows error_log w' of
                     (counts, error_log', w'') \<Rightarrow> (Returned counts, error_log', w''))
             else (Raised (StagingInsertError
                             (''Failed to insert into '' @ tname @ '': '' @ str_exn e) e),
                   log_error ''staging_insert'' tname (str_exn e)
                     [(''row_count'', Int_value (int (length data_rows)))] error_log,
                   w')))"


subsection \<open>The data-access capability\<close>

text \<open>
  The statements the sources send to \<open>cursor.execute\<close>, by the f-string that builds
  each one:
  \<^item> \<open>Call_procedure p\<close>: \<^verbatim>\<open>BEGIN {p}; END;\<close>
  \<^item> \<open>Select_count t\<close>: \<^verbatim>\<open>SELECT COUNT(*) FROM {t}\<close>
  \<^item> \<open>Select_ids_in t c\<close>: \<^verbatim>\<open>SELECT {c} FROM {t} WHERE {c} IN (:1, ..., :n)\<close>, the ids being
    the parameters of the call
  \<^item> \<open>Select_count_null t c\<close>: \<^verbatim>\<open>SELECT COUNT(*) FROM {t} WHERE {c} IS NULL\<close>
  \<^item> \<open>Select_count_orphans child parent fk pk\<close>:
    \<^verbatim>\<open>SELECT COUNT(*) FROM {child} c WHERE c.{fk} IS NOT NULL AND NOT EXISTS
      (SELECT 1 FROM {parent} p WHERE p.{pk} = c.{fk})\<close>
\<close>

datatype statement =
    Call_procedure string
  | Select_count string
  | Select_ids_in string string
  | Select_count_null string string
  | Select_count_orphans string string string string

text \<open>
  \<open>db_connector\<close>: the cursor and the connection of the caller. Every call may raise
  and may change the state \<open>'db\<close> behind the connector. A row fetched by \<open>fetchone\<close>
  answers a \<open>COUNT(*)\<close> and is a tuple of integers (\<open>None\<close> when there is no row); the
  rows fetched by \<open>fetchall\<close> hold the \<open>str\<close> of the selected values.
\<close>

record 'db db_connector =
  cursor_execute :: "statement \<Rightarrow> string list \<Rightarrow> 'db \<Rightarrow> unit result \<times> 'db"
  cursor_fetchone :: "'db \<Rightarrow> int list option result \<times> 'db"
  cursor_fetchall :: "'db \<Rightarrow> string list list result \<times> 'db"
  cursor_rowcount :: "'db \<Rightarrow> int"
  connection_commit :: "'db \<Rightarrow> unit result \<times> 'db"
  connection_rollback :: "'db \<Rightarrow> unit result \<times> 'db"

text \<open>The calls made on the connector are recorded in order, next to its state.\<close>

datatype db_call = Execute statement "string list" | Fetchone | Fetchall | Commit | Rollback

record 'db session =
  db :: 'db
  calls :: "db_call list"

definition execute ::
  "'db db_connector \<Rightarrow> statement \<Rightarrow> string list \<Rightarrow> 'db session \<Rightarrow> unit result \<times> 'db session" where
  "execute conn stmt params ss =
     (case cursor_execute conn stmt params (db ss) of
        (outcome, d) \<Rightarrow> (outcome, \<lparr>db = d, calls = calls ss @ [Execute stmt params]\<rparr>))"

definition fetchone :: "'db db_connector \<Rightarrow> 'db session \<Rightarrow> int list option result \<times> 'db session" where
  "fetchone conn ss =
     (case cursor_fetchone conn (db ss) of
        (outcome, d) \<Rightarrow> (outcome, \<lparr>db = d, calls = calls ss @ [Fetchone]\<rparr>))"

definition fetchall :: "'db db_connector \<Rightarrow> 'db session \<Rightarrow> string list list result \<times> 'db session" where
  "fetchall conn ss =
     (case cursor_fetchall conn (db ss) of
        (outcome, d) \<Rightarrow> (outcome, \<lparr>db = d, calls = calls ss @ [Fetchall]\<rparr>))"

definition commit :: "'db db_connector \<Rightarrow> 'db session \<Rightarrow> unit result \<times> 'db session" where
  "commit conn ss =
     (case connection_commit conn (db ss) of
        (outcome, d) \<Rightarrow> (outcome, \<lparr>db = d, calls = calls ss @ [Commit]\<rparr>))"

definition rollback :: "'db db_connector \<Rightarrow> 'db session \<Rightarrow> unit result \<times> 'db session" where
  "rollback conn ss =
     (case connection_rollback conn (db ss) of
        (outcome, d) \<Rightarrow> (outcome, \<lparr>db = d, calls = calls ss @ [Rollback]\<rparr>))"


subsection \<open>handle_merge_operation\<close>

text \<open>The dict returned by \<open>handle_merge_operation\<close>; the success result has no \<open>error_message\<close> key.\<close>

record merge_result =
  matched :: int
  inserted :: int
  updated :: int
  errors :: int
  success :: bool
  error_message :: "string option"

text \<open>\<open>table_name or procedure_name\<close>: \<open>None\<close> and the empty string are false.\<close>

definition display_name :: "string option \<Rightarrow> string \<Rightarrow> string" where
  "display_name tname procedure_name =
     (case tname of None \<Rightarrow> procedure_name | Some n \<Rightarrow> if n = [] then procedure_name else n)"

definition table_name_meta :: "string option \<Rightarrow> (string \<times> meta_value) list" where
  "table_name_meta tname =
     [(''table_name'', case tname of None \<Rightarrow> None_value | Some n \<Rightarrow> Str_value n)]"

text \<open>
  The two \<open>except\<close> clauses of \<open>handle_merge_operation\<close>, entered with the exception
  \<open>e\<close> raised inside the \<open>try\<close>. Both log the error and then call \<open>rollback\<close>, which is
  itself a call on the connection: when it raises, that exception leaves the handler.
\<close>

definition merge_except ::
  "string \<Rightarrow> 'db db_connector \<Rightarrow> string option \<Rightarrow> exn \<Rightarrow> error_entry list \<Rightarrow> 'db session
   \<Rightarrow> merge_result result \<times> error_entry list \<times> 'db session" where
  "merge_except procedure_name conn tname e error_log ss =
     (case e of
        DatabaseError error_msg \<Rightarrow>
          (let error_log' =
                 log_error ''merge_operation'' procedure_name error_msg (table_name_meta tname) error_log
           in case rollback conn ss of
                (Raised e', ss') \<Rightarrow> (Raised e', error_log', ss')
              | (Returned u, ss') \<Rightarrow>
                  (Returned \<lparr>matched = 0, inserted = 0, updated = 0, errors = 1,
                             success = False, error_message = Some error_msg\<rparr>,
                   error_log', ss'))
      | _ \<Rightarrow>
          (let error_log' =
                 log_error ''merge_operation'' procedure_name (str_exn e) (table_name_meta tname) error_log
           in case rollback conn ss of
                (Raised e', ss') \<Rightarrow> (Raised e', error_log', ss')
              | (Returned u, ss') \<Rightarrow>
                  (Raised (MergeOperationError
                             (''Failed to merge '' @ display_name tname procedure_name @ '': '' @ str_exn e) e),
                   error_log', ss')))"

definition handle_merge_operation ::
  "string \<Rightarrow> 'db db_connector \<Rightarrow> string option \<Rightarrow> error_entry list \<Rightarrow> 'db session
   \<Rightarrow> merge_result result \<times> error_entry list \<times> 'db session" where
  "handle_merge_operation procedure_name conn tname error_log ss =
     (case execute conn (Call_procedure procedure_name) [] ss of
        (Raised e, ss1) \<Rightarrow> merge_except procedure_name conn tname e error_log ss1
      | (Returned u, ss1) \<Rightarrow>
          (let row_count = cursor_rowcount conn (db ss1)
           in case commit conn ss1 of
                (Raised e, ss2) \<Rightarrow> merge_except procedure_name conn tname e error_log ss2
              | (Returned u', ss2) \<Rightarrow>
                  (Returned \<lparr>matched = row_count, inserted = 0, updated = 0, errors = 0,
                             success = True, error_message = None\<rparr>,
                   error_log, ss2)))"


section \<open>data_validator.py\<close>

text \<open>
  The issue messages, by the f-string that builds each one; the constructor carries
  the values the f-string formats, in the order it formats them:
  \<^item> \<open>Row_count_mismatch\<close>: \<^verbatim>\<open>Row count mismatch: CSV={csv_count}, Staging={staging_count} (difference: {abs(csv_count - staging_count)})\<close>
  \<^item> \<open>DW_fewer_rows\<close>: \<^verbatim>\<open>DW has fewer rows than staging: Staging={staging_count}, DW={dw_count}\<close>
  \<^item> \<open>Sample_ids_not_found\<close>: \<^verbatim>\<open>Sample IDs not found in DW: {missing_ids}\<close>
  \<^item> \<open>Null_ids\<close>: \<^verbatim>\<open>{null_id_count} records with NULL {id_column} in staging\<close>
  \<^item> \<open>Validation_exception\<close>: \<^verbatim>\<open>Validation exception: {str(e)}\<close>
  \<^item> \<open>Not_all_staging_in_DW\<close>: \<^verbatim>\<open>Not all staging records in DW: Staging={staging_count}, DW={dw_count}\<close>
  \<^item> \<open>Merge_count_mismatch\<close>: \<^verbatim>\<open>Merge count mismatch: Expected={expected_total}, Staging={staging_count}\<close>
  \<^item> \<open>Merge_validation_exception\<close>: \<^verbatim>\<open>Merge validation exception: {str(e)}\<close>
  \<^item> \<open>Orphaned_records\<close>: \<^verbatim>\<open>{orphan_count} orphaned records in {child_table} ({foreign_key} references missing {parent_table}.{parent_key})\<close>
  \<^item> \<open>Referential_integrity_exception\<close>: \<^verbatim>\<open>Referential integrity check exception: {str(e)}\<close>
\<close>

datatype issue =
    Row_count_mismatch int int int
  | DW_fewer_rows int int
  | Sample_ids_not_found "string list"
  | Null_ids int string
  | Validation_exception string
  | Not_all_staging_in_DW int int
  | Merge_count_mismatch int int
  | Merge_validation_exception string
  | Orphaned_records int string string string string
  | Referential_integrity_exception string

text \<open>\<open>result[0] if result else 0\<close>: \<open>None\<close> and the empty tuple are false.\<close>

fun first_or_zero :: "int list option \<Rightarrow> int" where
  "first_or_zero None = 0"
| "first_or_zero (Some []) = 0"
| "first_or_zero (Some (c # cs)) = c"

text \<open>
  \<open>_get_row_count\<close>: the whole body is inside \<open>try\<close>, and \<open>except Exception\<close> logs a
  warning and returns 0.
\<close>

definition get_row_count :: "'db db_connector \<Rightarrow> string \<Rightarrow> 'db session \<Rightarrow> int \<times> 'db session" where
  "get_row_count conn tname ss =
     (case execute conn (Select_count tname) [] ss of
        (Raised e, ss1) \<Rightarrow> (0, ss1)
      | (Returned u, ss1) \<Rightarrow>
          (case fetchone conn ss1 of
             (Raised e, ss2) \<Rightarrow> (0, ss2)
           | (Returned fetched, ss2) \<Rightarrow> (first_or_zero fetched, ss2)))"

text \<open>\<open>_count_null_ids\<close>, of the same shape.\<close>

definition count_null_ids :: "'db db_connector \<Rightarrow> string \<Rightarrow> string \<Rightarrow> 'db session \<Rightarrow> int \<times> 'db session" where
  "count_null_ids conn tname id_column ss =
     (case execute conn (Select_count_null tname id_column) [] ss of
        (Raised e, ss1) \<Rightarrow> (0, ss1)
      | (Returned u, ss1) \<Rightarrow>
          (case fetchone conn ss1 of
             (Raised e, ss2) \<Rightarrow> (0, ss2)
           | (Returned fetched, ss2) \<Rightarrow> (first_or_zero fetched, ss2)))"

text \<open>\<open>row[0]\<close> for every fetched row; an empty row raises \<open>IndexError\<close>, here \<open>None\<close>.\<close>

fun first_column :: "string list list \<Rightarrow> string list option" where
  "first_column [] = Some []"
| "first_column ([] # fetched) = None"
| "first_column ((v # vs) # fetched) = map_option ((#) v) (first_column fetched)"

text \<open>\<open>_check_ids_exist\<close>: the ids missing from the table; \<open>[]\<close> when anything raises.\<close>

definition check_ids_exist ::
  "'db db_connector \<Rightarrow> string \<Rightarrow> string \<Rightarrow> string list \<Rightarrow> 'db session \<Rightarrow> string list \<times> 'db session" where
  "check_ids_exist conn tname id_column ids ss =
     (if ids = [] then ([], ss)
      else
        (case execute conn (Select_ids_in tname id_column) ids ss of
           (Raised e, ss1) \<Rightarrow> ([], ss1)
         | (Returned u, ss1) \<Rightarrow>
             (case fetchall conn ss1 of
                (Raised e, ss2) \<Rightarrow> ([], ss2)
              | (Returned fetched, ss2) \<Rightarrow>
                  (case first_column fetched of
                     None \<Rightarrow> ([], ss2)
                   | Some found_ids \<Rightarrow> (filter (\<lambda>id_val. id_val \<notin> set found_ids) ids, ss2)))))"

text \<open>
  A row of \<open>csv.DictReader\<close> is a dict from the header's field names to strings.
  \<open>row.get(id_column) or row.get('Id')\<close>: the first value when it is a non-empty
  string, else the second; the comprehension keeps the rows where that is true.
\<close>

type_synonym csv_row = "(string \<times> string) list"

definition row_id :: "string \<Rightarrow> csv_row \<Rightarrow> string option" where
  "row_id id_column row =
     (case map_of row id_column of
        None \<Rightarrow> map_of row ''Id''
      | Some v \<Rightarrow> if v \<noteq> [] then Some v else map_of row ''Id'')"

definition sample_ids :: "string \<Rightarrow> csv_row list \<Rightarrow> string list" where
  "sample_ids id_column csv_rows =
     List.map_filter
       (\<lambda>row. case row_id id_column row of
                 None \<Rightarrow> None
               | Some v \<Rightarrow> if v \<noteq> [] then Some v else None)
       (take 5 csv_rows)"

text \<open>
  The \<open>try\<close> block of \<open>validate_table_import\<close>. \<open>csv_DictReader\<close> stands for
  \<open>list(csv.DictReader(io.StringIO(csv_content)))\<close>, the parser of the standard
  library, which returns the rows or raises. The helpers catch their own exceptions,
  so the block raises only where the parser does, before any issue is appended.
\<close>

definition validate_table_import_try ::
  "(string \<Rightarrow> csv_row list result) \<Rightarrow> 'db db_connector \<Rightarrow> string \<Rightarrow> string \<Rightarrow> string \<Rightarrow> string
   \<Rightarrow> 'db session \<Rightarrow> (bool \<times> issue list) result \<times> 'db session" where
  "validate_table_import_try csv_DictReader conn csv_content staging_table dw_table id_column ss =
     (case csv_DictReader csv_content of
        Raised e \<Rightarrow> (Raised e, ss)
      | Returned csv_rows \<Rightarrow>
          (let csv_count = int (length csv_rows) in
           if csv_count = 0 then (Returned (True, []), ss)
           else
             (case get_row_count conn staging_table ss of (staging_count, ss1) \<Rightarrow>
              case get_row_count conn dw_table ss1 of (dw_count, ss2) \<Rightarrow>
              let issues1 =
                    (if csv_count \<noteq> staging_count
                     then [Row_count_mismatch csv_count staging_count \<bar>csv_count - staging_count\<bar>]
                     else []);
                  issues2 =
                    issues1 @
                    (if staging_count > 0 \<and> dw_count < staging_count
                     then [DW_fewer_rows staging_count dw_count]
                     else []);
                  ids = sample_ids id_column csv_rows
              in
              case (if csv_count > 0 \<and> ids \<noteq> []
                    then (case check_ids_exist conn dw_table id_column ids ss2 of
                            (missing_ids, ss3) \<Rightarrow>
                              (if missing_ids \<noteq> [] then issues2 @ [Sample_ids_not_found missing_ids]
                               else issues2, ss3))
                    else (issues2, ss2)) of (issues3, ss3) \<Rightarrow>
              case count_null_ids conn staging_table id_column ss3 of (null_id_count, ss4) \<Rightarrow>
              let issues4 =
                    issues3 @ (if null_id_count > 0 then [Null_ids null_id_count id_column] else [])
              in (Returned (issues4 = [], issues4), ss4))))"

text \<open>\<open>validate_table_import\<close>: the \<open>try\<close> block under its \<open>except Exception\<close>.\<close>

definition validate_table_import ::
  "(string \<Rightarrow> csv_row list result) \<Rightarrow> 'db db_connector \<Rightarrow> string \<Rightarrow> string \<Rightarrow> string \<Rightarrow> string
   \<Rightarrow> 'db session \<Rightarrow> (bool \<times> issue list) result \<times> 'db session" where
  "validate_table_import csv_DictReader conn csv_content staging_table dw_table id_column ss =
     (case validate_table_import_try csv_DictReader conn csv_content staging_table dw_table id_column ss of
        (Raised e, ss') \<Rightarrow> (Returned (False, [] @ [Validation_exception (str_exn e)]), ss')
      | (Returned r, ss') \<Rightarrow> (Returned r, ss'))"

text \<open>\<open>(expected_updates or 0) + (expected_inserts or 0)\<close>\<close>

definition or_zero :: "int option \<Rightarrow> int" where
  "or_zero x = (case x of None \<Rightarrow> 0 | Some n \<Rightarrow> n)"

definition validate_merge_operation_try ::
  "'db db_connector \<Rightarrow> string \<Rightarrow> string \<Rightarrow> int option \<Rightarrow> int option
   \<Rightarrow> 'db session \<Rightarrow> (bool \<times> issue list) result \<times> 'db session" where
  "validate_merge_operation_try conn staging_table dw_table expected_updates expected_inserts ss =
     (case get_row_count conn staging_table ss of (staging_count, ss1) \<Rightarrow>
      case get_row_count conn dw_table ss1 of (dw_count, ss2) \<Rightarrow>
      let issues1 =
            (if staging_count > dw_count then [Not_all_staging_in_DW staging_count dw_count] else []);
          issues2 =
            issues1 @
            (if expected_updates \<noteq> None \<or> expected_inserts \<noteq> None
             then (let expected_total = or_zero expected_updates + or_zero expected_inserts
                   in if expected_total \<noteq> staging_count
                      then [Merge_count_mismatch expected_total staging_count]
                      else [])
             else [])
      in (Returned (issues2 = [], issues2), ss2))"

definition validate_merge_operation ::
  "'db db_connector \<Rightarrow> string \<Rightarrow> string \<Rightarrow> int option \<Rightarrow> int option
   \<Rightarrow> 'db session \<Rightarrow> (bool \<times> issue list) result \<times> 'db session" where
  "validate_merge_operation conn staging_table dw_table expected_updates expected_inserts ss =
     (case validate_merge_operation_try conn staging_table dw_table expected_updates expected_inserts ss of
        (Raised e, ss') \<Rightarrow> (Returned (False, [] @ [Merge_validation_exception (str_exn e)]), ss')
      | (Returned r, ss') \<Rightarrow> (Returned r, ss'))"

text \<open>
  The \<open>try\<close> block of \<open>check_referential_integrity\<close>: the query is executed here, not in
  a helper, so what \<open>execute\<close> or \<open>fetchone\<close> raises reaches the \<open>except\<close> clause of the
  function, with \<open>issues\<close> still empty.
\<close>

definition check_referential_integrity_try ::
  "'db db_connector \<Rightarrow> string \<Rightarrow> string \<Rightarrow> string \<Rightarrow> string
   \<Rightarrow> 'db session \<Rightarrow> (bool \<times> issue list) result \<times> 'db session" where
  "check_referential_integrity_try conn child_table parent_table foreign_key parent_key ss =
     (case execute conn (Select_count_orphans child_table parent_table foreign_key parent_key) [] ss of
        (Raised e, ss1) \<Rightarrow> (Raised e, ss1)
      | (Returned u, ss1) \<Rightarrow>
          (case fetchone conn ss1 of
             (Raised e, ss2) \<Rightarrow> (Raised e, ss2)
           | (Returned fetched, ss2) \<Rightarrow>
               (let orphan_count = first_or_zero fetched;
                    issues =
                      (if orphan_count > 0
                       then [Orphaned_records orphan_count child_table foreign_key parent_table parent_key]
                       else [])
                in (Returned (issues = [], issues), ss2))))"

definition check_referential_integrity ::
  "'db db_connector \<Rightarrow> string \<Rightarrow> string \<Rightarrow> string \<Rightarrow> string
   \<Rightarrow> 'db session \<Rightarrow> (bool \<times> issue list) result \<times> 'db session" where
  "check_referential_integrity conn child_table parent_table foreign_key parent_key ss =
     (case check_referential_integrity_try conn child_table parent_table foreign_key parent_key ss of
        (Raised e, ss') \<Rightarrow> (Returned (False, [] @ [Referential_integrity_exception (str_exn e)]), ss')
      | (Returned r, ss') \<Rightarrow> (Returned r, ss'))"


section \<open>Connectors and operations to run the handlers on\<close>

subsection \<open>A relational database behind the connector\<close>

text \<open>
  The database is not part of the repository. To say what the statements of the
  validator count, a table is a list of rows and a row maps a column to its value,
  a column without a value being \<open>NULL\<close>. A comparison with \<open>NULL\<close> is unknown, and a
  \<open>WHERE\<close> clause keeps the rows on which its condition is true.
\<close>

type_synonym sql_row = "string \<rightharpoonup> string"

record rel_db =
  rel_tables :: "string \<rightharpoonup> sql_row list"
  fetch_counts :: "int list list"
  fetch_rows :: "string list list"

fun sql_equal :: "string option \<Rightarrow> string option \<Rightarrow> bool option" where
  "sql_equal (Some x) (Some y) = Some (x = y)"
| "sql_equal None y = None"
| "sql_equal x None = None"

text \<open>
  \<^verbatim>\<open>SELECT COUNT(*) FROM child c WHERE c.fk IS NOT NULL AND NOT EXISTS
    (SELECT 1 FROM parent p WHERE p.pk = c.fk)\<close>
\<close>

definition select_count_orphans :: "sql_row list \<Rightarrow> sql_row list \<Rightarrow> string \<Rightarrow> string \<Rightarrow> nat" where
  "select_count_orphans child_rows parent_rows fk pk =
     length (filter (\<lambda>c. c fk \<noteq> None
                          \<and> filter (\<lambda>p. sql_equal (p pk) (c fk) = Some True) parent_rows = [])
                    child_rows)"

definition no_such_table :: exn where
  "no_such_table = DatabaseError ''ORA-00942: table or view does not exist''"

fun rel_execute :: "statement \<Rightarrow> string list \<Rightarrow> rel_db \<Rightarrow> unit result \<times> rel_db" where
  "rel_execute (Call_procedure p) params d =
     (Raised (DatabaseError ''PLS-00201: identifier must be declared''), d)"
| "rel_execute (Select_count t) params d =
     (case rel_tables d t of
        None \<Rightarrow> (Raised no_such_table, d)
      | Some table_rows \<Rightarrow> (Returned (), d\<lparr>fetch_counts := [[int (length table_rows)]]\<rparr>))"
| "rel_execute (Select_ids_in t c) params d =
     (case rel_tables d t of
        None \<Rightarrow> (Raised no_such_table, d)
      | Some table_rows \<Rightarrow>
          (Returned (),
           d\<lparr>fetch_rows :=
               List.map_filter
                 (\<lambda>r. case r c of None \<Rightarrow> None | Some v \<Rightarrow> if v \<in> set params then Some [v] else None)
                 table_rows\<rparr>))"
| "rel_execute (Select_count_null t c) params d =
     (case rel_tables d t of
        None \<Rightarrow> (Raised no_such_table, d)
      | Some table_rows \<Rightarrow>
          (Returned (), d\<lparr>fetch_counts := [[int (length (filter (\<lambda>r. r c = None) table_rows))]]\<rparr>))"
| "rel_execute (Select_count_orphans child parent fk pk) params d =
     (case rel_tables d child of
        None \<Rightarrow> (Raised no_such_table, d)
      | Some child_rows \<Rightarrow>
          (case rel_tables d parent of
             None \<Rightarrow> (Raised no_such_table, d)
           | Some parent_rows \<Rightarrow>
               (Returned (),
                d\<lparr>fetch_counts := [[int (select_count_orphans child_rows parent_rows fk pk)]]\<rparr>)))"

definition rel_fetchone :: "rel_db \<Rightarrow> int list option result \<times> rel_db" where
  "rel_fetchone d =
     (case fetch_counts d of
        [] \<Rightarrow> (Returned None, d)
      | r # rs \<Rightarrow> (Returned (Some r), d\<lparr>fetch_counts := rs\<rparr>))"

definition rel_fetchall :: "rel_db \<Rightarrow> string list list result \<times> rel_db" where
  "rel_fetchall d = (Returned (fetch_rows d), d\<lparr>fetch_rows := []\<rparr>)"

definition relational_connector :: "rel_db db_connector" where
  "relational_connector =
     \<lparr>cursor_execute = rel_execute,
      cursor_fetchone = rel_fetchone,
      cursor_fetchall = rel_fetchall,
      cursor_rowcount = (\<lambda>d. 0),
      connection_commit = (\<lambda>d. (Returned (), d)),
      connection_rollback = (\<lambda>d. (Returned (), d))\<rparr>"

text \<open>
  The orphan records in the words of the specification: the child rows whose
  foreign-key value is not null and is the key of no parent row.
\<close>

definition orphan_rows :: "sql_row list \<Rightarrow> sql_row list \<Rightarrow> string \<Rightarrow> string \<Rightarrow> sql_row list" where
  "orphan_rows child_rows parent_rows fk pk =
     filter (\<lambda>c. case c fk of
                   None \<Rightarrow> False
                 | Some v \<Rightarrow> Some v \<notin> set (map (\<lambda>p. p pk) parent_rows))
            child_rows"

subsection \<open>A connector with fixed outcomes\<close>

text \<open>
  A connector whose \<open>execute\<close>, \<open>commit\<close> and \<open>rollback\<close> each do what the script says,
  to run \<open>handle_merge_operation\<close> on a merge routine that raises and on a connection
  whose rollback raises.
\<close>

record script =
  execute_outcome :: "unit result"
  rowcount :: int
  commit_outcome :: "unit result"
  rollback_outcome :: "unit result"

definition scripted_connector :: "script db_connector" where
  "scripted_connector =
     \<lparr>cursor_execute = (\<lambda>stmt params s. (execute_outcome s, s)),
      cursor_fetchone = (\<lambda>s. (Returned None, s)),
      cursor_fetchall = (\<lambda>s. (Returned [], s)),
      cursor_rowcount = rowcount,
      connection_commit = (\<lambda>s. (commit_outcome s, s)),
      connection_rollback = (\<lambda>s. (rollback_outcome s, s))\<rparr>"

subsection \<open>An insert operation\<close>

text \<open>
  An insert into a staging table whose first column is \<open>NOT NULL\<close>: a row is a tuple of
  strings, and a batch with a row whose first value is missing or empty is refused as
  a whole with a \<open>DatabaseError\<close>; otherwise the batch is appended to the table.
\<close>

definition insert_not_null :: "(string list, string list list) operation" where
  "insert_not_null batch staging =
     (if list_ex (\<lambda>row. case row of [] \<Rightarrow> True | v # vs \<Rightarrow> v = []) batch
      then (Raised (DatabaseError ''ORA-01400: cannot insert NULL''), staging)
      else (Returned (), staging @ batch))"

text \<open>\<open>str\<close> of such a row, for the error log.\<close>

definition str_tuple :: "string list \<Rightarrow> string" where
  "str_tuple row = concat (map (\<lambda>v. v @ '','') row)"

subsection \<open>The row-by-row fallback in the words of the specification\<close>

text \<open>
  Each row is attempted on its own, in the order of the batch, and each attempt
  starts from the state the attempt before it left, whether that one returned or
  raised. \<open>row_outcomes\<close> lists the outcome of every attempt and \<open>state_after_rows\<close> is
  the state after the last one. The success count is the number of attempts that
  returned, the error count the number that raised; \<open>failed_rows\<close> lists the attempts
  that raised, each with the index of its row in the batch, the row and the exception,
  and \<open>row_error_entry\<close> is the entry recorded for one of them.
\<close>

fun row_outcomes :: "('row, 's) operation \<Rightarrow> 'row list \<Rightarrow> 's \<Rightarrow> unit result list" where
  "row_outcomes operation [] s = []"
| "row_outcomes operation (row # rest) s =
     fst (operation [row] s) # row_outcomes operation rest (snd (operation [row] s))"

fun state_after_rows :: "('row, 's) operation \<Rightarrow> 'row list \<Rightarrow> 's \<Rightarrow> 's" where
  "state_after_rows operation [] s = s"
| "state_after_rows operation (row # rest) s =
     state_after_rows operation rest (snd (operation [row] s))"

fun has_returned :: "'a result \<Rightarrow> bool" where
  "has_returned (Returned v) = True"
| "has_returned (Raised e) = False"

fun has_raised :: "'a result \<Rightarrow> bool" where
  "has_raised (Returned v) = False"
| "has_raised (Raised e) = True"

fun failed_rows :: "nat \<Rightarrow> 'row list \<Rightarrow> unit result list \<Rightarrow> (nat \<times> 'row \<times> exn) list" where
  "failed_rows idx (row # rest) (Raised e # outcomes) =
     (idx, row, e) # failed_rows (idx + 1) rest outcomes"
| "failed_rows idx (row # rest) (Returned u # outcomes) = failed_rows (idx + 1) rest outcomes"
| "failed_rows idx [] outcomes = []"
| "failed_rows idx (row # rest) [] = []"

fun row_error_entry :: "string \<Rightarrow> ('row \<Rightarrow> string) \<Rightarrow> nat \<times> 'row \<times> exn \<Rightarrow> error_entry" where
  "row_error_entry tname str_row (idx, row, e) =
     \<lparr>entry_type = ''staging_insert'', entry_context = tname, entry_message = str_exn e,
      entry_metadata =
        [(''row_index'', Int_value (int idx)),
         (''row_data'', Str_value (take 200 (str_row row)))]\<rparr>"


section \<open>Properties of data_import_logger.py\<close>

lemma upper_examples:
  "upper ''molo'' = ''MOLO''" "upper ''Stellar'' = ''STELLAR''" "upper ''ORACLE'' = ''ORACLE''"
  by (simp_all add: upper_def upper_char_def)


text \<open>
  Claim C1. The status of a table-import record is decided by the first rule that
  applies: \<open>ERROR\<close> when some stage has a non-empty error list, else \<open>WARNING\<close> when
  there is a validation issue, else \<open>SKIPPED\<close> when nothing was staged, else
  \<open>SUCCESS\<close>. In particular a stage with an error makes the status \<open>ERROR\<close> whatever the
  validation and staging fields hold.
\<close>

theorem get_status_precedence:
  "get_status m =
     (if (\<exists>stage errors. (stage, errors) \<in> set (stage_errors m) \<and> errors \<noteq> []) then ERROR
      else if validation_issues m \<noteq> [] then WARNING
      else if staging_inserted m = 0 then SKIPPED
      else SUCCESS)
   \<and> ((\<exists>stage errors. (stage, errors) \<in> set (stage_errors m) \<and> errors \<noteq> [])
        \<longrightarrow> get_status m = ERROR)"
proof -
  have any: "(stage_errors m \<noteq> [] \<and> list_ex (\<lambda>errors. errors \<noteq> []) (map snd (stage_errors m)))
      = (\<exists>stage errors. (stage, errors) \<in> set (stage_errors m) \<and> errors \<noteq> [])"
    by (force simp: list_ex_iff)
  show ?thesis unfolding get_status_def any by simp
qed

theorem get_status_precedence_witness:
  "(STAGING_INSERT, [''ORA-00001'']) \<in> set (stage_errors
      ((new_TableImportMetrics ''BOATS'' ''boats.csv'' 10 0)
         \<lparr>validation_issues := [''Row count mismatch''], stage_errors := [(STAGING_INSERT, [''ORA-00001''])]\<rparr>))
   \<and> get_status ((new_TableImportMetrics ''BOATS'' ''boats.csv'' 10 0)
         \<lparr>validation_issues := [''Row count mismatch''], stage_errors := [(STAGING_INSERT, [''ORA-00001''])]\<rparr>) = ERROR
   \<and> get_status ((new_TableImportMetrics ''BOATS'' ''boats.csv'' 10 0)
         \<lparr>validation_issues := [''Row count mismatch''], stage_errors := [(STAGING_INSERT, [])]\<rparr>) = WARNING
   \<and> get_status ((new_TableImportMetrics ''BOATS'' ''boats.csv'' 10 0)
         \<lparr>stage_errors := [(STAGING_INSERT, [])]\<rparr>) = SKIPPED
   \<and> get_status ((new_TableImportMetrics ''BOATS'' ''boats.csv'' 10 0)
         \<lparr>staging_inserted := 10\<rparr>) = SUCCESS"
  using get_status_precedence [of "(new_TableImportMetrics ''BOATS'' ''boats.csv'' 10 0)
         \<lparr>validation_issues := [''Row count mismatch''], stage_errors := [(STAGING_INSERT, [''ORA-00001''])]\<rparr>"]
    get_status_precedence [of "(new_TableImportMetrics ''BOATS'' ''boats.csv'' 10 0)
         \<lparr>validation_issues := [''Row count mismatch''], stage_errors := [(STAGING_INSERT, [])]\<rparr>"]
    get_status_precedence [of "(new_TableImportMetrics ''BOATS'' ''boats.csv'' 10 0)
         \<lparr>stage_errors := [(STAGING_INSERT, [])]\<rparr>"]
    get_status_precedence [of "(new_TableImportMetrics ''BOATS'' ''boats.csv'' 10 0)
         \<lparr>staging_inserted := 10\<rparr>"]
  by (simp add: new_TableImportMetrics_def)

lemma fold_add_lengths:
  "fold (\<lambda>errors total. total + int (length errors)) xs (a::int)
     = a + sum_list (map (\<lambda>errors. int (length errors)) xs)"
  by (induction xs arbitrary: a) simp_all

lemma add_table_fields:
  "total_csv_rows (add_table m s) = total_csv_rows s + csv_row_count m"
  "total_staging_inserted (add_table m s) = total_staging_inserted s + staging_inserted m"
  "total_merge_inserts (add_table m s) = total_merge_inserts s + merge_inserted m"
  "total_merge_updates (add_table m s) = total_merge_updates s + merge_updated m"
  "total_errors (add_table m s)
     = total_errors s + sum_list (map (\<lambda>(stage, errors). int (length errors)) (stage_errors m))"
  "total_warnings (add_table m s) = total_warnings s + int (length (validation_issues m))"
  by (simp_all add: add_table_def fold_add_lengths comp_def case_prod_unfold)

lemma fold_add_table_totals:
  "total_csv_rows (fold add_table ms s) = total_csv_rows s + sum_list (map csv_row_count ms)"
  "total_staging_inserted (fold add_table ms s)
     = total_staging_inserted s + sum_list (map staging_inserted ms)"
  "total_merge_inserts (fold add_table ms s) = total_merge_inserts s + sum_list (map merge_inserted ms)"
  "total_merge_updates (fold add_table ms s) = total_merge_updates s + sum_list (map merge_updated ms)"
  "total_errors (fold add_table ms s)
     = total_errors s
       + sum_list (map (\<lambda>m. sum_list (map (\<lambda>(stage, errors). int (length errors)) (stage_errors m))) ms)"
  "total_warnings (fold add_table ms s)
     = total_warnings s + sum_list (map (\<lambda>m. int (length (validation_issues m))) ms)"
  by (induction ms arbitrary: s; simp add: add_table_fields)+

text \<open>
  Claim C5. After the tables \<open>ms\<close> have been added, in this order, to a new summary,
  each running total is the sum of its field over all of \<open>ms\<close>, every addition counted
  (also one that replaces the entry of a table added before); the error total is the
  sum of the lengths of all stage error lists and the warning total the sum of the
  lengths of the validation issue lists.
\<close>

theorem add_table_running_totals:
  "total_csv_rows (fold add_table ms (new_SystemImportSummary name)) = sum_list (map csv_row_count ms)
   \<and> total_staging_inserted (fold add_table ms (new_SystemImportSummary name))
       = sum_list (map staging_inserted ms)
   \<and> total_merge_inserts (fold add_table ms (new_SystemImportSummary name))
       = sum_list (map merge_inserted ms)
   \<and> total_merge_updates (fold add_table ms (new_SystemImportSummary name))
       = sum_list (map merge_updated ms)
   \<and> total_errors (fold add_table ms (new_SystemImportSummary name))
       = sum_list (map (\<lambda>m. sum_list (map (\<lambda>(stage, errors). int (length errors)) (stage_errors m))) ms)
   \<and> total_warnings (fold add_table ms (new_SystemImportSummary name))
       = sum_list (map (\<lambda>m. int (length (validation_issues m))) ms)"
  by (simp add: fold_add_table_totals new_SystemImportSummary_def)

theorem add_table_running_totals_witness:
  "map fst (tables (fold add_table
      [(new_TableImportMetrics ''BOATS'' ''boats.csv'' 10 0)
         \<lparr>staging_inserted := 8, stage_errors := [(STAGING_INSERT, [''ORA-01400'', ''ORA-01400''])]\<rparr>,
       (new_TableImportMetrics ''BOATS'' ''boats2.csv'' 5 3)
         \<lparr>staging_inserted := 5, validation_issues := [''Row count mismatch'']\<rparr>]
      (new_SystemImportSummary ''MOLO''))) = [''BOATS'']
   \<and> total_csv_rows (fold add_table
      [(new_TableImportMetrics ''BOATS'' ''boats.csv'' 10 0)
         \<lparr>staging_inserted := 8, stage_errors := [(STAGING_INSERT, [''ORA-01400'', ''ORA-01400''])]\<rparr>,
       (new_TableImportMetrics ''BOATS'' ''boats2.csv'' 5 3)
         \<lparr>staging_inserted := 5, validation_issues := [''Row count mismatch'']\<rparr>]
      (new_SystemImportSummary ''MOLO'')) = 15
   \<and> total_staging_inserted (fold add_table
      [(new_TableImportMetrics ''BOATS'' ''boats.csv'' 10 0)
         \<lparr>staging_inserted := 8, stage_errors := [(STAGING_INSERT, [''ORA-01400'', ''ORA-01400''])]\<rparr>,
       (new_TableImportMetrics ''BOATS'' ''boats2.csv'' 5 3)
         \<lparr>staging_inserted := 5, validation_issues := [''Row count mismatch'']\<rparr>]
      (new_SystemImportSummary ''MOLO'')) = 13
   \<and> total_errors (fold add_table
      [(new_TableImportMetrics ''BOATS'' ''boats.csv'' 10 0)
         \<lparr>staging_inserted := 8, stage_errors := [(STAGING_INSERT, [''ORA-01400'', ''ORA-01400''])]\<rparr>,
       (new_TableImportMetrics ''BOATS'' ''boats2.csv'' 5 3)
         \<lparr>staging_inserted := 5, validation_issues := [''Row count mismatch'']\<rparr>]
      (new_SystemImportSummary ''MOLO'')) = 2
   \<and> total_warnings (fold add_table
      [(new_TableImportMetrics ''BOATS'' ''boats.csv'' 10 0)
         \<lparr>staging_inserted := 8, stage_errors := [(STAGING_INSERT, [''ORA-01400'', ''ORA-01400''])]\<rparr>,
       (new_TableImportMetrics ''BOATS'' ''boats2.csv'' 5 3)
         \<lparr>staging_inserted := 5, validation_issues := [''Row count mismatch'']\<rparr>]
      (new_SystemImportSummary ''MOLO'')) = 1"
proof -
  let ?ms = "[(new_TableImportMetrics ''BOATS'' ''boats.csv'' 10 0)
         \<lparr>staging_inserted := 8, stage_errors := [(STAGING_INSERT, [''ORA-01400'', ''ORA-01400''])]\<rparr>,
       (new_TableImportMetrics ''BOATS'' ''boats2.csv'' 5 3)
         \<lparr>staging_inserted := 5, validation_issues := [''Row count mismatch'']\<rparr>]"
  have names: "map fst (tables (fold add_table ?ms (new_SystemImportSummary ''MOLO''))) = [''BOATS'']"
    by (simp add: add_table_def new_SystemImportSummary_def new_TableImportMetrics_def)
  show ?thesis
    using names add_table_running_totals [of ?ms "''MOLO''"]
    by (simp add: new_TableImportMetrics_def)
qed

text \<open>
  Claim C9. While no table-import record is open, that is on a new logger and after
  every \<open>end_table_import\<close> that returned, each of \<open>log_staging_insert\<close>,
  \<open>log_merge_operation\<close>, \<open>log_validation_result\<close> and \<open>add_error\<close> returns the logger
  as it was: the open-record slot, both summaries and all totals are unchanged. These
  operations have no \<open>raise\<close>, so the model gives them no error outcome.
\<close>

theorem record_calls_without_open_record:
  "current_metrics new_DataImportLogger = None
   \<and> (\<forall>r t'. end_table_import now sysname t = (Returned r, t') \<longrightarrow> current_metrics t' = None)
   \<and> (current_metrics t = None \<longrightarrow>
        log_staging_insert inserted_count error_count t = t
        \<and> log_merge_operation n_matched n_inserted n_updated n_merge_errors t = t
        \<and> log_validation_result passed issues t = t
        \<and> logger_add_error stage error_msg t = t)"
proof -
  have a: "current_metrics new_DataImportLogger = None"
    by (simp add: new_DataImportLogger_def)
  have b: "\<forall>r t'. end_table_import now sysname t = (Returned r, t') \<longrightarrow> current_metrics t' = None"
    by (auto simp: end_table_import_def Let_def split: option.splits result.splits)
  have c: "current_metrics t = None \<longrightarrow>
        log_staging_insert inserted_count error_count t = t
        \<and> log_merge_operation n_matched n_inserted n_updated n_merge_errors t = t
        \<and> log_validation_result passed issues t = t
        \<and> logger_add_error stage error_msg t = t"
    by (simp add: log_staging_insert_def log_merge_operation_def log_validation_result_def
        logger_add_error_def)
  from a b c show ?thesis by blast
qed

theorem record_calls_without_open_record_witness:
  "current_metrics new_DataImportLogger = None
   \<and> log_staging_insert 10 2 new_DataImportLogger = new_DataImportLogger
   \<and> log_merge_operation 10 4 6 0 new_DataImportLogger = new_DataImportLogger
   \<and> log_validation_result False (Some [''Row count mismatch'']) new_DataImportLogger = new_DataImportLogger
   \<and> logger_add_error STAGING_INSERT ''ORA-00001'' new_DataImportLogger = new_DataImportLogger
   \<and> end_table_import 9 ''molo'' (start_table_import 1 ''molo'' ''BOATS'' ''boats.csv'' 10 new_DataImportLogger)
       = (Returned (), snd (end_table_import 9 ''molo'' (start_table_import 1 ''molo'' ''BOATS'' ''boats.csv'' 10 new_DataImportLogger)))
   \<and> log_staging_insert 10 2 (snd (end_table_import 9 ''molo'' (start_table_import 1 ''molo'' ''BOATS'' ''boats.csv'' 10 new_DataImportLogger)))
       = snd (end_table_import 9 ''molo'' (start_table_import 1 ''molo'' ''BOATS'' ''boats.csv'' 10 new_DataImportLogger))"
proof -
  let ?t = "start_table_import 1 ''molo'' ''BOATS'' ''boats.csv'' 10 new_DataImportLogger"
  let ?t' = "snd (end_table_import 9 ''molo'' ?t)"
  have ret: "end_table_import 9 ''molo'' ?t = (Returned (), ?t')"
    by (simp add: end_table_import_def start_table_import_def get_summary_def upper_examples Let_def)
  have closed: "current_metrics ?t' = None"
    using record_calls_without_open_record [of 9 "''molo''" ?t] ret by blast
  show ?thesis
    using record_calls_without_open_record [of 0 "''molo''" new_DataImportLogger 10 2 10 4 6 0 False
        "Some [''Row count mismatch'']" STAGING_INSERT "''ORA-00001''"]
      record_calls_without_open_record [of 0 "''molo''" ?t' 10 2 10 4 6 0 False
        "Some [''Row count mismatch'']" STAGING_INSERT "''ORA-00001''"] ret closed
    by simp
qed





section \<open>Properties of error_handler.py\<close>

lemma call_operation_eq:
  "operation batch (op_state w) = (outcome, s') \<Longrightarrow>
   call_operation operation batch w = (outcome, \<lparr>op_state = s', op_calls = op_calls w @ [batch]\<rparr>)"
  by (simp add: call_operation_def)

lemma count_outcomes:
  "length (filter has_returned outcomes) + length (filter has_raised outcomes) = length outcomes"
proof (induction outcomes)
  case Nil
  show ?case by simp
next
  case (Cons outcome outcomes)
  then show ?case by (cases outcome) simp_all
qed

lemma length_row_outcomes: "length (row_outcomes operation data_rows s) = length data_rows"
  by (induction data_rows arbitrary: s) simp_all

lemma insert_rows_eq:
  "insert_rows tname operation str_row data_rows idx sc ec error_log w =
     ((sc + length (filter has_returned (row_outcomes operation data_rows (op_state w))),
       ec + length (filter has_raised (row_outcomes operation data_rows (op_state w)))),
      error_log @ map (row_error_entry tname str_row)
                      (take (5 - ec) (failed_rows idx data_rows
                                        (row_outcomes operation data_rows (op_state w)))),
      \<lparr>op_state = state_after_rows operation data_rows (op_state w),
       op_calls = op_calls w @ map (\<lambda>row. [row]) data_rows\<rparr>)"
proof (induction data_rows arbitrary: idx sc ec error_log w)
  case Nil
  show ?case by simp
next
  case (Cons row rest)
  obtain outcome s' where op: "operation [row] (op_state w) = (outcome, s')"
    by (cases "operation [row] (op_state w)")
  let ?w' = "\<lparr>op_state = s', op_calls = op_calls w @ [[row]]\<rparr>"
  have c: "call_operation operation [row] w = (outcome, ?w')"
    using call_operation_eq [of operation "[row]" w, OF op] .
  show ?case
  proof (cases outcome)
    case (Returned u)
    show ?thesis
      using c op Returned
      by (simp add: Cons.IH [of "Suc idx" "Suc sc" ec error_log ?w'])
  next
    case (Raised e)
    show ?thesis
    proof (cases "ec < 5")
      case True
      then have t: "5 - ec = Suc (5 - Suc ec)" by simp
      show ?thesis
        using c op Raised True
        by (simp add: Cons.IH [of "Suc idx" sc "Suc ec" _ ?w'] log_error_def t)
    next
      case False
      show ?thesis
        using c op Raised False
        by (simp add: Cons.IH [of "Suc idx" sc "Suc ec" _ ?w'])
    qed
  qed
qed

text \<open>
  Claim C2. On an empty batch \<open>handle_staging_insert\<close> returns \<open>(0, 0)\<close> and the
  operation is not called: the world of the operation, with its list of calls, is
  unchanged. On a non-empty batch whose bulk call returns, the result is
  \<open>(len(data_rows), 0)\<close>, the bulk call is the only call and the state is the one it
  left. When the bulk call raises a \<open>DatabaseError\<close>, every row is then tried on its
  own, in order, from the state the bulk call left, whatever the rows before it did:
  the success count is the number of rows whose call returned, the error count the
  number of rows whose call raised, so that the two add up to the size of the batch;
  the first five failures are appended to the error log, and the state is the one the
  last row left.
\<close>

theorem handle_staging_insert_counts:
  "(data_rows = [] \<longrightarrow>
      handle_staging_insert tname operation str_row data_rows error_log w = (Returned (0, 0), error_log, w))
   \<and> (data_rows \<noteq> [] \<and> operation data_rows (op_state w) = (Returned (), s1) \<longrightarrow>
        handle_staging_insert tname operation str_row data_rows error_log w
          = (Returned (length data_rows, 0), error_log,
             \<lparr>op_state = s1, op_calls = op_calls w @ [data_rows]\<rparr>))
   \<and> (data_rows \<noteq> [] \<and> operation data_rows (op_state w) = (Raised (DatabaseError msg), s1) \<longrightarrow>
        handle_staging_insert tname operation str_row data_rows error_log w
          = (Returned (length (filter has_returned (row_outcomes operation data_rows s1)),
                       length (filter has_raised (row_outcomes operation data_rows s1))),
             error_log @ map (row_error_entry tname str_row)
                             (take 5 (failed_rows 0 data_rows (row_outcomes operation data_rows s1))),
             \<lparr>op_state = state_after_rows operation data_rows s1,
              op_calls = op_calls w @ [data_rows] @ map (\<lambda>row. [row]) data_rows\<rparr>)
        \<and> length (filter has_returned (row_outcomes operation data_rows s1))
            + length (filter has_raised (row_outcomes operation data_rows s1)) = length data_rows)"
proof (intro conjI impI)
  assume "data_rows = []"
  then show "handle_staging_insert tname operation str_row data_rows error_log w = (Returned (0, 0), error_log, w)"
    by (simp add: handle_staging_insert_def)
next
  assume a: "data_rows \<noteq> [] \<and> operation data_rows (op_state w) = (Returned (), s1)"
  then have "call_operation operation data_rows w
             = (Returned (), \<lparr>op_state = s1, op_calls = op_calls w @ [data_rows]\<rparr>)"
    using call_operation_eq [of operation data_rows w "Returned ()" s1] by simp
  with a show "handle_staging_insert tname operation str_row data_rows error_log w
          = (Returned (length data_rows, 0), error_log,
             \<lparr>op_state = s1, op_calls = op_calls w @ [data_rows]\<rparr>)"
    by (simp add: handle_staging_insert_def)
next
  assume a: "data_rows \<noteq> [] \<and> operation data_rows (op_state w) = (Raised (DatabaseError msg), s1)"
  then have "call_operation operation data_rows w
             = (Raised (DatabaseError msg), \<lparr>op_state = s1, op_calls = op_calls w @ [data_rows]\<rparr>)"
    using call_operation_eq [of operation data_rows w "Raised (DatabaseError msg)" s1] by simp
  with a show "handle_staging_insert tname operation str_row data_rows error_log w
          = (Returned (length (filter has_returned (row_outcomes operation data_rows s1)),
                       length (filter has_raised (row_outcomes operation data_rows s1))),
             error_log @ map (row_error_entry tname str_row)
                             (take 5 (failed_rows 0 data_rows (row_outcomes operation data_rows s1))),
             \<lparr>op_state = state_after_rows operation data_rows s1,
              op_calls = op_calls w @ [data_rows] @ map (\<lambda>row. [row]) data_rows\<rparr>)"
    by (simp add: handle_staging_insert_def insert_row_by_row_def insert_rows_eq)
next
  show "length (filter has_returned (row_outcomes operation data_rows s1))
            + length (filter has_raised (row_outcomes operation data_rows s1)) = length data_rows"
    by (simp add: count_outcomes length_row_outcomes)
qed

text \<open>
  Claim C4. On a non-empty batch whose bulk call raises anything but a
  \<open>DatabaseError\<close>, \<open>handle_staging_insert\<close> raises a \<open>StagingInsertError\<close> that wraps the
  exception; the bulk call is the only call of the operation (no row is tried on its
  own), one entry is appended to the error log, and no pair of counts is returned.
\<close>

theorem handle_staging_insert_unexpected_fault:
  "data_rows \<noteq> [] \<and> operation data_rows (op_state w) = (Raised e, s') \<and> \<not> is_DatabaseError e \<longrightarrow>
     handle_staging_insert tname operation str_row data_rows error_log w
       = (Raised (StagingInsertError (''Failed to insert into '' @ tname @ '': '' @ str_exn e) e),
          log_error ''staging_insert'' tname (str_exn e)
            [(''row_count'', Int_value (int (length data_rows)))] error_log,
          \<lparr>op_state = s', op_calls = op_calls w @ [data_rows]\<rparr>)"
  by (auto simp: handle_staging_insert_def call_operation_def)

theorem handle_staging_insert_counts_witness:
  "handle_staging_insert ''STG_BOATS'' insert_not_null str_tuple [] [] \<lparr>op_state = [], op_calls = []\<rparr>
     = (Returned (0, 0), [], \<lparr>op_state = [], op_calls = []\<rparr>)
   \<and> insert_not_null [[''1'', ''Aurora''], [''3'', ''Calypso'']] []
       = (Returned (), [[''1'', ''Aurora''], [''3'', ''Calypso'']])
   \<and> handle_staging_insert ''STG_BOATS'' insert_not_null str_tuple
        [[''1'', ''Aurora''], [''3'', ''Calypso'']] [] \<lparr>op_state = [], op_calls = []\<rparr>
     = (Returned (2, 0), [],
        \<lparr>op_state = [[''1'', ''Aurora''], [''3'', ''Calypso'']],
         op_calls = [[[''1'', ''Aurora''], [''3'', ''Calypso'']]]\<rparr>)
   \<and> insert_not_null [[''1'', ''Aurora''], ['''', ''Nameless''], [''3'', ''Calypso'']] []
       = (Raised (DatabaseError ''ORA-01400: cannot insert NULL''), [])
   \<and> handle_staging_insert ''STG_BOATS'' insert_not_null str_tuple
        [[''1'', ''Aurora''], ['''', ''Nameless''], [''3'', ''Calypso'']] []
        \<lparr>op_state = [], op_calls = []\<rparr>
     = (Returned (2, 1),
        [\<lparr>entry_type = ''staging_insert'', entry_context = ''STG_BOATS'',
          entry_message = ''ORA-01400: cannot insert NULL'',
          entry_metadata = [(''row_index'', Int_value 1), (''row_data'', Str_value '',Nameless,'')]\<rparr>],
        \<lparr>op_state = [[''1'', ''Aurora''], [''3'', ''Calypso'']],
         op_calls = [[[''1'', ''Aurora''], ['''', ''Nameless''], [''3'', ''Calypso'']],
                     [[''1'', ''Aurora'']], [['''', ''Nameless'']], [[''3'', ''Calypso'']]]\<rparr>)"
proof -
  let ?w = "\<lparr>op_state = [], op_calls = []\<rparr> :: (string list, string list list) op_world"
  let ?good = "[[''1'', ''Aurora''], [''3'', ''Calypso'']]"
  let ?bad = "[[''1'', ''Aurora''], ['''', ''Nameless''], [''3'', ''Calypso'']]"
  have g: "insert_not_null ?good (op_state ?w) = (Returned (), ?good)"
    by (simp add: insert_not_null_def)
  have b: "insert_not_null ?bad (op_state ?w)
           = (Raised (DatabaseError ''ORA-01400: cannot insert NULL''), [])"
    by (simp add: insert_not_null_def)
  show ?thesis
    using g b
      handle_staging_insert_counts [of "[]" "''STG_BOATS''" insert_not_null str_tuple "[]" ?w]
      handle_staging_insert_counts [of ?good "''STG_BOATS''" insert_not_null str_tuple "[]" ?w ?good]
      handle_staging_insert_counts [of ?bad "''STG_BOATS''" insert_not_null str_tuple "[]" ?w "[]"
        "''ORA-01400: cannot insert NULL''"]
    by (simp add: insert_not_null_def str_tuple_def)
qed

theorem handle_staging_insert_unexpected_fault_witness:
  "[[''1'', ''Aurora''], [''3'', ''Calypso'']] \<noteq> ([] :: string list list)
   \<and> \<not> is_DatabaseError (Exception ''connection reset by peer'')
   \<and> handle_staging_insert ''STG_BOATS''
        (\<lambda>batch s. (Raised (Exception ''connection reset by peer''), s)) str_tuple
        [[''1'', ''Aurora''], [''3'', ''Calypso'']] [] \<lparr>op_state = (), op_calls = []\<rparr>
     = (Raised (StagingInsertError ''Failed to insert into STG_BOATS: connection reset by peer''
                  (Exception ''connection reset by peer'')),
        [\<lparr>entry_type = ''staging_insert'', entry_context = ''STG_BOATS'',
          entry_message = ''connection reset by peer'',
          entry_metadata = [(''row_count'', Int_value 2)]\<rparr>],
        \<lparr>op_state = (), op_calls = [[[''1'', ''Aurora''], [''3'', ''Calypso'']]]\<rparr>)"
  using handle_staging_insert_unexpected_fault
    [of "[[''1'', ''Aurora''], [''3'', ''Calypso'']]"
        "\<lambda>batch s. (Raised (Exception ''connection reset by peer''), s)"
        "\<lparr>op_state = (), op_calls = []\<rparr>" "Exception ''connection reset by peer''" "()"
        "''STG_BOATS''" str_tuple "[]"]
  by (simp add: log_error_def)

lemma execute_eq:
  "cursor_execute conn stmt params (db ss) = (outcome, d) \<Longrightarrow>
   execute conn stmt params ss = (outcome, \<lparr>db = d, calls = calls ss @ [Execute stmt params]\<rparr>)"
  by (simp add: execute_def)

lemma rollback_eq:
  "connection_rollback conn (db ss) = (outcome, d) \<Longrightarrow>
   rollback conn ss = (outcome, \<lparr>db = d, calls = calls ss @ [Rollback]\<rparr>)"
  by (simp add: rollback_def)

text \<open>
  Claim C3, as the code has it. When the merge routine raises and the rollback that
  follows returns: a \<open>DatabaseError\<close> gives the returned failure result
  \<open>{matched: 0, inserted: 0, updated: 0, errors: 1, success: False}\<close> with the message
  of the error, any other exception gives a raised \<open>MergeOperationError\<close> wrapping it;
  so the call raises exactly when the exception is not a \<open>DatabaseError\<close>, and in both
  cases the calls on the connector are the \<open>execute\<close> and one \<open>rollback\<close>, no \<open>commit\<close>.
\<close>

theorem handle_merge_operation_failure_branches:
  "cursor_execute conn (Call_procedure procedure_name) [] (db ss) = (Raised e, d1)
   \<and> connection_rollback conn d1 = (Returned (), d2) \<longrightarrow>
     (is_DatabaseError e \<longrightarrow>
        fst (handle_merge_operation procedure_name conn tname error_log ss)
          = Returned \<lparr>matched = 0, inserted = 0, updated = 0, errors = 1, success = False,
                      error_message = Some (str_exn e)\<rparr>)
     \<and> (\<not> is_DatabaseError e \<longrightarrow>
          fst (handle_merge_operation procedure_name conn tname error_log ss)
            = Raised (MergeOperationError
                       (''Failed to merge '' @ display_name tname procedure_name @ '': '' @ str_exn e) e))
     \<and> ((\<exists>x. fst (handle_merge_operation procedure_name conn tname error_log ss) = Raised x)
          \<longleftrightarrow> \<not> is_DatabaseError e)
     \<and> snd (snd (handle_merge_operation procedure_name conn tname error_log ss))
         = \<lparr>db = d2, calls = calls ss @ [Execute (Call_procedure procedure_name) [], Rollback]\<rparr>"
proof (intro impI, elim conjE)
  assume ex: "cursor_execute conn (Call_procedure procedure_name) [] (db ss) = (Raised e, d1)"
    and rb: "connection_rollback conn d1 = (Returned (), d2)"
  let ?ss1 = "\<lparr>db = d1, calls = calls ss @ [Execute (Call_procedure procedure_name) []]\<rparr>"
  have h: "handle_merge_operation procedure_name conn tname error_log ss
           = merge_except procedure_name conn tname e error_log ?ss1"
    using execute_eq [of conn "Call_procedure procedure_name" "[]" ss, OF ex]
    by (simp add: handle_merge_operation_def)
  have r: "rollback conn ?ss1
           = (Returned (), \<lparr>db = d2, calls = calls ss @ [Execute (Call_procedure procedure_name) [], Rollback]\<rparr>)"
    using rollback_eq [of conn ?ss1] rb by simp
  show "(is_DatabaseError e \<longrightarrow>
        fst (handle_merge_operation procedure_name conn tname error_log ss)
          = Returned \<lparr>matched = 0, inserted = 0, updated = 0, errors = 1, success = False,
                      error_message = Some (str_exn e)\<rparr>)
     \<and> (\<not> is_DatabaseError e \<longrightarrow>
          fst (handle_merge_operation procedure_name conn tname error_log ss)
            = Raised (MergeOperationError
                       (''Failed to merge '' @ display_name tname procedure_name @ '': '' @ str_exn e) e))
     \<and> ((\<exists>x. fst (handle_merge_operation procedure_name conn tname error_log ss) = Raised x)
          \<longleftrightarrow> \<not> is_DatabaseError e)
     \<and> snd (snd (handle_merge_operation procedure_name conn tname error_log ss))
         = \<lparr>db = d2, calls = calls ss @ [Execute (Call_procedure procedure_name) [], Rollback]\<rparr>"
    unfolding h by (cases e) (simp_all add: merge_except_def r Let_def)
qed

theorem handle_merge_operation_failure_branches_witness:
  "fst (handle_merge_operation ''SP_MERGE_BOATS'' scripted_connector (Some ''BOATS'') []
         \<lparr>db = \<lparr>execute_outcome = Raised (DatabaseError ''ORA-00001: unique constraint violated''),
                 rowcount = 0, commit_outcome = Returned (), rollback_outcome = Returned ()\<rparr>,
          calls = []\<rparr>)
     = Returned \<lparr>matched = 0, inserted = 0, updated = 0, errors = 1, success = False,
                 error_message = Some ''ORA-00001: unique constraint violated''\<rparr>
   \<and> calls (snd (snd (handle_merge_operation ''SP_MERGE_BOATS'' scripted_connector (Some ''BOATS'') []
         \<lparr>db = \<lparr>execute_outcome = Raised (DatabaseError ''ORA-00001: unique constraint violated''),
                 rowcount = 0, commit_outcome = Returned (), rollback_outcome = Returned ()\<rparr>,
          calls = []\<rparr>)))
     = [Execute (Call_procedure ''SP_MERGE_BOATS'') [], Rollback]
   \<and> fst (handle_merge_operation ''SP_MERGE_BOATS'' scripted_connector (Some ''BOATS'') []
         \<lparr>db = \<lparr>execute_outcome = Raised (Exception ''cursor is closed''),
                 rowcount = 0, commit_outcome = Returned (), rollback_outcome = Returned ()\<rparr>,
          calls = []\<rparr>)
     = Raised (MergeOperationError ''Failed to merge BOATS: cursor is closed'' (Exception ''cursor is closed''))
   \<and> calls (snd (snd (handle_merge_operation ''SP_MERGE_BOATS'' scripted_connector (Some ''BOATS'') []
         \<lparr>db = \<lparr>execute_outcome = Raised (Exception ''cursor is closed''),
                 rowcount = 0, commit_outcome = Returned (), rollback_outcome = Returned ()\<rparr>,
          calls = []\<rparr>)))
     = [Execute (Call_procedure ''SP_MERGE_BOATS'') [], Rollback]"
proof -
  let ?d = "\<lparr>execute_outcome = Raised (DatabaseError ''ORA-00001: unique constraint violated''),
             rowcount = 0, commit_outcome = Returned (), rollback_outcome = Returned ()\<rparr>"
  let ?u = "\<lparr>execute_outcome = Raised (Exception ''cursor is closed''),
             rowcount = 0, commit_outcome = Returned (), rollback_outcome = Returned ()\<rparr>"
  have hd: "cursor_execute scripted_connector (Call_procedure ''SP_MERGE_BOATS'') [] (db \<lparr>db = ?d, calls = []\<rparr>)
              = (Raised (DatabaseError ''ORA-00001: unique constraint violated''), ?d)
            \<and> connection_rollback scripted_connector ?d = (Returned (), ?d)"
    by (simp add: scripted_connector_def)
  have hu: "cursor_execute scripted_connector (Call_procedure ''SP_MERGE_BOATS'') [] (db \<lparr>db = ?u, calls = []\<rparr>)
              = (Raised (Exception ''cursor is closed''), ?u)
            \<and> connection_rollback scripted_connector ?u = (Returned (), ?u)"
    by (simp add: scripted_connector_def)
  show ?thesis
    using handle_merge_operation_failure_branches
        [of scripted_connector "''SP_MERGE_BOATS''" "\<lparr>db = ?d, calls = []\<rparr>"
            "DatabaseError ''ORA-00001: unique constraint violated''" ?d ?d "Some ''BOATS''" "[]"] hd
      handle_merge_operation_failure_branches
        [of scripted_connector "''SP_MERGE_BOATS''" "\<lparr>db = ?u, calls = []\<rparr>"
            "Exception ''cursor is closed''" ?u ?u "Some ''BOATS''" "[]"] hu
    by (simp add: display_name_def)
qed

text \<open>
  The claim as written fails when the rollback itself raises, as it does on a lost
  connection: the routine raised a \<open>DatabaseError\<close>, yet \<open>handle_merge_operation\<close>
  raises, with the exception of the rollback, instead of returning the failure result.
\<close>

theorem handle_merge_operation_rollback_counterexample:
  "cursor_execute scripted_connector (Call_procedure ''SP_MERGE_BOATS'') []
      \<lparr>execute_outcome = Raised (DatabaseError ''ORA-03113: end-of-file on communication channel''),
       rowcount = 0, commit_outcome = Returned (),
       rollback_outcome = Raised (DatabaseError ''DPY-1001: not connected to database'')\<rparr>
     = (Raised (DatabaseError ''ORA-03113: end-of-file on communication channel''),
        \<lparr>execute_outcome = Raised (DatabaseError ''ORA-03113: end-of-file on communication channel''),
         rowcount = 0, commit_outcome = Returned (),
         rollback_outcome = Raised (DatabaseError ''DPY-1001: not connected to database'')\<rparr>)
   \<and> is_DatabaseError (DatabaseError ''ORA-03113: end-of-file on communication channel'')
   \<and> handle_merge_operation ''SP_MERGE_BOATS'' scripted_connector (Some ''BOATS'') []
        \<lparr>db = \<lparr>execute_outcome = Raised (DatabaseError ''ORA-03113: end-of-file on communication channel''),
                rowcount = 0, commit_outcome = Returned (),
                rollback_outcome = Raised (DatabaseError ''DPY-1001: not connected to database'')\<rparr>,
         calls = []\<rparr>
     = (Raised (DatabaseError ''DPY-1001: not connected to database''),
        [\<lparr>entry_type = ''merge_operation'', entry_context = ''SP_MERGE_BOATS'',
          entry_message = ''ORA-03113: end-of-file on communication channel'',
          entry_metadata = [(''table_name'', Str_value ''BOATS'')]\<rparr>],
        \<lparr>db = \<lparr>execute_outcome = Raised (DatabaseError ''ORA-03113: end-of-file on communication channel''),
                rowcount = 0, commit_outcome = Returned (),
                rollback_outcome = Raised (DatabaseError ''DPY-1001: not connected to database'')\<rparr>,
         calls = [Execute (Call_procedure ''SP_MERGE_BOATS'') [], Rollback]\<rparr>)"
  by (simp add: handle_merge_operation_def merge_except_def execute_def rollback_def
      scripted_connector_def log_error_def table_name_meta_def Let_def)


section \<open>Properties of data_validator.py\<close>

lemma execute_raised:
  "fst (cursor_execute conn stmt params (db ss)) = Raised e \<Longrightarrow>
   \<exists>ss'. execute conn stmt params ss = (Raised e, ss')"
  by (cases "cursor_execute conn stmt params (db ss)") (simp add: execute_def)

text \<open>
  Claim C7, as the code has it. None of \<open>validate_table_import\<close>,
  \<open>validate_merge_operation\<close> and \<open>check_referential_integrity\<close> raises, whatever the
  connector and the reader do. An exception of the reader in
  \<open>validate_table_import\<close>, or of the orphan query in \<open>check_referential_integrity\<close>,
  becomes one issue of the returned list, with \<open>passed = False\<close>. An exception inside
  the helpers \<open>_get_row_count\<close>, \<open>_count_null_ids\<close> and \<open>_check_ids_exist\<close> is caught by
  the helper, which answers 0 or no missing id: it gives no issue.
\<close>

theorem validators_catch_exceptions:
  "(\<exists>r. fst (validate_table_import csv_DictReader conn csv_content staging_table dw_table id_column ss)
          = Returned r)
   \<and> (\<exists>r. fst (validate_merge_operation conn staging_table dw_table expected_updates expected_inserts ss)
          = Returned r)
   \<and> (\<exists>r. fst (check_referential_integrity conn child_table parent_table foreign_key parent_key ss)
          = Returned r)
   \<and> (csv_DictReader csv_content = Raised e \<longrightarrow>
        validate_table_import csv_DictReader conn csv_content staging_table dw_table id_column ss
          = (Returned (False, [Validation_exception (str_exn e)]), ss))
   \<and> (fst (cursor_execute conn (Select_count_orphans child_table parent_table foreign_key parent_key) []
              (db ss)) = Raised e \<longrightarrow>
        fst (check_referential_integrity conn child_table parent_table foreign_key parent_key ss)
          = Returned (False, [Referential_integrity_exception (str_exn e)]))
   \<and> (fst (cursor_execute conn (Select_count tname) [] (db ss)) = Raised e \<longrightarrow>
        fst (get_row_count conn tname ss) = 0)
   \<and> (fst (cursor_execute conn (Select_count_null tname id_column) [] (db ss)) = Raised e \<longrightarrow>
        fst (count_null_ids conn tname id_column ss) = 0)
   \<and> (fst (cursor_execute conn (Select_ids_in tname id_column) ids (db ss)) = Raised e \<longrightarrow>
        fst (check_ids_exist conn tname id_column ids ss) = [])"
proof (intro conjI impI)
  show "\<exists>r. fst (validate_table_import csv_DictReader conn csv_content staging_table dw_table id_column ss)
          = Returned r"
  proof (cases "validate_table_import_try csv_DictReader conn csv_content staging_table dw_table id_column ss")
    case (Pair outcome ss')
    then show ?thesis
      by (cases outcome) (auto simp: validate_table_import_def)
  qed
  show "\<exists>r. fst (validate_merge_operation conn staging_table dw_table expected_updates expected_inserts ss)
          = Returned r"
  proof (cases "validate_merge_operation_try conn staging_table dw_table expected_updates expected_inserts ss")
    case (Pair outcome ss')
    then show ?thesis
      by (cases outcome) (auto simp: validate_merge_operation_def)
  qed
  show "\<exists>r. fst (check_referential_integrity conn child_table parent_table foreign_key parent_key ss)
          = Returned r"
  proof (cases "check_referential_integrity_try conn child_table parent_table foreign_key parent_key ss")
    case (Pair outcome ss')
    then show ?thesis
      by (cases outcome) (auto simp: check_referential_integrity_def)
  qed
next
  assume "csv_DictReader csv_content = Raised e"
  then show "validate_table_import csv_DictReader conn csv_content staging_table dw_table id_column ss
          = (Returned (False, [Validation_exception (str_exn e)]), ss)"
    by (simp add: validate_table_import_def validate_table_import_try_def)
next
  assume "fst (cursor_execute conn (Select_count_orphans child_table parent_table foreign_key parent_key) []
              (db ss)) = Raised e"
  then show "fst (check_referential_integrity conn child_table parent_table foreign_key parent_key ss)
          = Returned (False, [Referential_integrity_exception (str_exn e)])"
    using execute_raised [of conn "Select_count_orphans child_table parent_table foreign_key parent_key" "[]" ss e]
    by (auto simp: check_referential_integrity_def check_referential_integrity_try_def)
next
  assume "fst (cursor_execute conn (Select_count tname) [] (db ss)) = Raised e"
  then show "fst (get_row_count conn tname ss) = 0"
    using execute_raised [of conn "Select_count tname" "[]" ss e]
    by (auto simp: get_row_count_def)
next
  assume "fst (cursor_execute conn (Select_count_null tname id_column) [] (db ss)) = Raised e"
  then show "fst (count_null_ids conn tname id_column ss) = 0"
    using execute_raised [of conn "Select_count_null tname id_column" "[]" ss e]
    by (auto simp: count_null_ids_def)
next
  assume "fst (cursor_execute conn (Select_ids_in tname id_column) ids (db ss)) = Raised e"
  then show "fst (check_ids_exist conn tname id_column ids ss) = []"
    using execute_raised [of conn "Select_ids_in tname id_column" "ids" ss e]
    by (auto simp: check_ids_exist_def)
qed






text \<open>
  Claim C6. When the source has no row, \<open>validate_table_import\<close> returns \<open>(True, [])\<close>
  and leaves the session as it was: no call is made on the connector, so no row
  count, sample id or null id is checked, whatever the tables hold.
\<close>

theorem validate_table_import_empty_source:
  "csv_DictReader csv_content = Returned [] \<longrightarrow>
     validate_table_import csv_DictReader conn csv_content staging_table dw_table id_column ss
       = (Returned (True, []), ss)"
  by (simp add: validate_table_import_def validate_table_import_try_def)

lemma select_count_orphans_eq:
  "select_count_orphans child_rows parent_rows fk pk = length (orphan_rows child_rows parent_rows fk pk)"
proof -
  have "\<And>c. (c fk \<noteq> None \<and> filter (\<lambda>p. sql_equal (p pk) (c fk) = Some True) parent_rows = [])
        = (case c fk of None \<Rightarrow> False | Some v \<Rightarrow> Some v \<notin> set (map (\<lambda>p. p pk) parent_rows))"
  proof -
    fix c :: sql_row
    show "(c fk \<noteq> None \<and> filter (\<lambda>p. sql_equal (p pk) (c fk) = Some True) parent_rows = [])
        = (case c fk of None \<Rightarrow> False | Some v \<Rightarrow> Some v \<notin> set (map (\<lambda>p. p pk) parent_rows))"
    proof (cases "c fk")
      case None
      then show ?thesis by simp
    next
      case (Some v)
      have eq: "\<And>x. (sql_equal x (Some v) = Some True) = (x = Some v)"
        by (case_tac x) auto
      have "(filter (\<lambda>p. sql_equal (p pk) (Some v) = Some True) parent_rows = [])
            = (\<forall>p \<in> set parent_rows. p pk \<noteq> Some v)"
        by (simp add: filter_empty_conv eq)
      also have "\<dots> = (Some v \<notin> set (map (\<lambda>p. p pk) parent_rows))"
        by (simp add: image_iff) metis
      finally show ?thesis using Some by simp
    qed
  qed
  then show ?thesis
    by (simp add: select_count_orphans_def orphan_rows_def)
qed

text \<open>
  Claim C8. On a database that holds the child and the parent table,
  \<open>check_referential_integrity\<close> counts the child rows whose foreign key is not null
  and is the key of no parent row: it returns \<open>(True, [])\<close> when there is none, and
  otherwise \<open>(False, [issue])\<close> with the one issue that reports this count.
\<close>

theorem check_referential_integrity_orphan_count:
  "rel_tables (db ss) child_table = Some child_rows
   \<and> rel_tables (db ss) parent_table = Some parent_rows \<longrightarrow>
     fst (check_referential_integrity relational_connector child_table parent_table foreign_key parent_key ss)
       = Returned
           (if length (orphan_rows child_rows parent_rows foreign_key parent_key) = 0 then (True, [])
            else (False,
                  [Orphaned_records (int (length (orphan_rows child_rows parent_rows foreign_key parent_key)))
                     child_table foreign_key parent_table parent_key]))"
  by (simp add: check_referential_integrity_def check_referential_integrity_try_def
      execute_def fetchone_def relational_connector_def rel_fetchone_def select_count_orphans_eq Let_def)


theorem validate_table_import_empty_source_witness:
  "validate_table_import (\<lambda>content. Returned []) relational_connector (''ID,NAME'' @ [CHR 0x0A])
        ''STG_MOLO_BOATS'' ''DW_MOLO_BOATS'' ''ID''
        \<lparr>db = \<lparr>rel_tables = [''STG_MOLO_BOATS'' \<mapsto> [Map.empty, [''ID'' \<mapsto> ''7'']],
                             ''DW_MOLO_BOATS'' \<mapsto> []],
                fetch_counts = [], fetch_rows = []\<rparr>, calls = []\<rparr>
     = (Returned (True, []),
        \<lparr>db = \<lparr>rel_tables = [''STG_MOLO_BOATS'' \<mapsto> [Map.empty, [''ID'' \<mapsto> ''7'']],
                             ''DW_MOLO_BOATS'' \<mapsto> []],
                fetch_counts = [], fetch_rows = []\<rparr>, calls = []\<rparr>)
   \<and> fst (validate_table_import (\<lambda>content. Returned [[(''ID'', ''7''), (''NAME'', ''Aurora'')]])
        relational_connector (''ID,NAME'' @ [CHR 0x0A] @ ''7,Aurora'' @ [CHR 0x0A])
        ''STG_MOLO_BOATS'' ''DW_MOLO_BOATS'' ''ID''
        \<lparr>db = \<lparr>rel_tables = [''STG_MOLO_BOATS'' \<mapsto> [Map.empty, [''ID'' \<mapsto> ''7'']],
                             ''DW_MOLO_BOATS'' \<mapsto> []],
                fetch_counts = [], fetch_rows = []\<rparr>, calls = []\<rparr>)
     = Returned (False, [Row_count_mismatch 1 2 1, DW_fewer_rows 2 0,
                         Sample_ids_not_found [''7''], Null_ids 1 ''ID''])"
proof -
  let ?no_rows = "\<lambda>content :: string. (Returned [] :: csv_row list result)"
  let ?ss = "\<lparr>db = \<lparr>rel_tables = [''STG_MOLO_BOATS'' \<mapsto> [Map.empty, [''ID'' \<mapsto> ''7'']],
                             ''DW_MOLO_BOATS'' \<mapsto> []],
                fetch_counts = [], fetch_rows = []\<rparr>, calls = []\<rparr>"
  have empty: "?no_rows (''ID,NAME'' @ [CHR 0x0A]) = Returned []"
    by simp
  have issues: "fst (validate_table_import (\<lambda>content. Returned [[(''ID'', ''7''), (''NAME'', ''Aurora'')]])
        relational_connector (''ID,NAME'' @ [CHR 0x0A] @ ''7,Aurora'' @ [CHR 0x0A])
        ''STG_MOLO_BOATS'' ''DW_MOLO_BOATS'' ''ID'' ?ss)
     = Returned (False, [Row_count_mismatch 1 2 1, DW_fewer_rows 2 0,
                         Sample_ids_not_found [''7''], Null_ids 1 ''ID''])"
    by (simp add: validate_table_import_def validate_table_import_try_def get_row_count_def
        count_null_ids_def check_ids_exist_def sample_ids_def row_id_def execute_def fetchone_def
        fetchall_def relational_connector_def rel_fetchone_def rel_fetchall_def
        List.map_filter_simps Let_def)
  show ?thesis
    using empty issues
      validate_table_import_empty_source [of ?no_rows "''ID,NAME'' @ [CHR 0x0A]"
        relational_connector "''STG_MOLO_BOATS''" "''DW_MOLO_BOATS''" "''ID''" ?ss]
    by simp
qed

theorem check_referential_integrity_orphan_count_witness:
  "fst (check_referential_integrity relational_connector ''DW_MOLO_SLIPS'' ''DW_MOLO_BOATS'' ''BOAT_ID'' ''ID''
         \<lparr>db = \<lparr>rel_tables =
                   [''DW_MOLO_SLIPS'' \<mapsto> [[''BOAT_ID'' \<mapsto> ''1''], [''BOAT_ID'' \<mapsto> ''9''], Map.empty],
                    ''DW_MOLO_BOATS'' \<mapsto> [[''ID'' \<mapsto> ''1''], Map.empty]],
                 fetch_counts = [], fetch_rows = []\<rparr>, calls = []\<rparr>)
     = Returned (False, [Orphaned_records 1 ''DW_MOLO_SLIPS'' ''BOAT_ID'' ''DW_MOLO_BOATS'' ''ID''])
   \<and> fst (check_referential_integrity relational_connector ''DW_MOLO_SLIPS'' ''DW_MOLO_BOATS'' ''BOAT_ID'' ''ID''
         \<lparr>db = \<lparr>rel_tables =
                   [''DW_MOLO_SLIPS'' \<mapsto> [[''BOAT_ID'' \<mapsto> ''1''], Map.empty],
                    ''DW_MOLO_BOATS'' \<mapsto> [[''ID'' \<mapsto> ''1''], Map.empty]],
                 fetch_counts = [], fetch_rows = []\<rparr>, calls = []\<rparr>)
     = Returned (True, [])"
proof -
  let ?boats = "[[''ID'' \<mapsto> ''1''], Map.empty] :: sql_row list"
  let ?slips1 = "[[''BOAT_ID'' \<mapsto> ''1''], [''BOAT_ID'' \<mapsto> ''9''], Map.empty] :: sql_row list"
  let ?slips2 = "[[''BOAT_ID'' \<mapsto> ''1''], Map.empty] :: sql_row list"
  let ?ss1 = "\<lparr>db = \<lparr>rel_tables = [''DW_MOLO_SLIPS'' \<mapsto> ?slips1, ''DW_MOLO_BOATS'' \<mapsto> ?boats],
                 fetch_counts = [], fetch_rows = []\<rparr>, calls = []\<rparr>"
  let ?ss2 = "\<lparr>db = \<lparr>rel_tables = [''DW_MOLO_SLIPS'' \<mapsto> ?slips2, ''DW_MOLO_BOATS'' \<mapsto> ?boats],
                 fetch_counts = [], fetch_rows = []\<rparr>, calls = []\<rparr>"
  have h1: "rel_tables (db ?ss1) ''DW_MOLO_SLIPS'' = Some ?slips1
            \<and> rel_tables (db ?ss1) ''DW_MOLO_BOATS'' = Some ?boats"
    by simp
  have h2: "rel_tables (db ?ss2) ''DW_MOLO_SLIPS'' = Some ?slips2
            \<and> rel_tables (db ?ss2) ''DW_MOLO_BOATS'' = Some ?boats"
    by simp
  have n1: "length (orphan_rows ?slips1 ?boats ''BOAT_ID'' ''ID'') = 1"
    by (simp add: orphan_rows_def)
  have n2: "length (orphan_rows ?slips2 ?boats ''BOAT_ID'' ''ID'') = 0"
    by (simp add: orphan_rows_def)
  show ?thesis
    using check_referential_integrity_orphan_count
        [of ?ss1 "''DW_MOLO_SLIPS''" ?slips1 "''DW_MOLO_BOATS''" ?boats "''BOAT_ID''" "''ID''"] h1 n1
      check_referential_integrity_orphan_count
        [of ?ss2 "''DW_MOLO_SLIPS''" ?slips2 "''DW_MOLO_BOATS''" ?boats "''BOAT_ID''" "''ID''"] h2 n2
    by simp
qed

theorem validators_catch_exceptions_witness:
  "validate_table_import (\<lambda>content. Raised (Exception ''field larger than field limit (131072)''))
       relational_connector ''ID,NAME'' ''STG_MOLO_BOATS'' ''DW_MOLO_BOATS'' ''ID''
       \<lparr>db = \<lparr>rel_tables = Map.empty, fetch_counts = [], fetch_rows = []\<rparr>, calls = []\<rparr>
     = (Returned (False, [Validation_exception ''field larger than field limit (131072)'']),
        \<lparr>db = \<lparr>rel_tables = Map.empty, fetch_counts = [], fetch_rows = []\<rparr>, calls = []\<rparr>)
   \<and> fst (cursor_execute relational_connector
            (Select_count_orphans ''DW_MOLO_SLIPS'' ''DW_MOLO_BOATS'' ''BOAT_ID'' ''ID'') []
            \<lparr>rel_tables = Map.empty, fetch_counts = [], fetch_rows = []\<rparr>)
       = Raised (DatabaseError ''ORA-00942: table or view does not exist'')
   \<and> fst (check_referential_integrity relational_connector ''DW_MOLO_SLIPS'' ''DW_MOLO_BOATS'' ''BOAT_ID'' ''ID''
            \<lparr>db = \<lparr>rel_tables = Map.empty, fetch_counts = [], fetch_rows = []\<rparr>, calls = []\<rparr>)
       = Returned (False, [Referential_integrity_exception ''ORA-00942: table or view does not exist''])
   \<and> fst (get_row_count relational_connector ''STG_MOLO_BOATS''
            \<lparr>db = \<lparr>rel_tables = Map.empty, fetch_counts = [], fetch_rows = []\<rparr>, calls = []\<rparr>) = 0"
proof -
  let ?ss = "\<lparr>db = \<lparr>rel_tables = Map.empty, fetch_counts = [], fetch_rows = []\<rparr>, calls = []\<rparr>"
  let ?rd = "\<lambda>content :: string. (Raised (Exception ''field larger than field limit (131072)'') :: csv_row list result)"
  have x: "fst (cursor_execute relational_connector
            (Select_count_orphans ''DW_MOLO_SLIPS'' ''DW_MOLO_BOATS'' ''BOAT_ID'' ''ID'') [] (db ?ss))
       = Raised (DatabaseError ''ORA-00942: table or view does not exist'')"
    by (simp add: relational_connector_def no_such_table_def)
  have y: "fst (cursor_execute relational_connector (Select_count ''STG_MOLO_BOATS'') [] (db ?ss))
       = Raised (DatabaseError ''ORA-00942: table or view does not exist'')"
    by (simp add: relational_connector_def no_such_table_def)
  show ?thesis
    using x y
      validators_catch_exceptions [of ?rd relational_connector "''ID,NAME''" "''STG_MOLO_BOATS''"
        "''DW_MOLO_BOATS''" "''ID''" ?ss None None "''DW_MOLO_SLIPS''" "''DW_MOLO_BOATS''" "''BOAT_ID''" "''ID''"
        "Exception ''field larger than field limit (131072)''" "''STG_MOLO_BOATS''" "[]"]
      validators_catch_exceptions [of ?rd relational_connector "''ID,NAME''" "''STG_MOLO_BOATS''"
        "''DW_MOLO_BOATS''" "''ID''" ?ss None None "''DW_MOLO_SLIPS''" "''DW_MOLO_BOATS''" "''BOAT_ID''" "''ID''"
        "DatabaseError ''ORA-00942: table or view does not exist''" "''STG_MOLO_BOATS''" "[]"]
    by simp
qed

text \<open>
  The claim as written fails in the helpers: on a database without the two tables
  both row counts raise, each is answered by 0, and \<open>validate_merge_operation\<close>
  returns \<open>(True, [])\<close>, with no issue for the exceptions and \<open>passed = True\<close>.
\<close>

theorem validate_merge_operation_swallowed_exception_counterexample:
  "fst (cursor_execute relational_connector (Select_count ''STG_MOLO_BOATS'') []
         \<lparr>rel_tables = Map.empty, fetch_counts = [], fetch_rows = []\<rparr>)
     = Raised (DatabaseError ''ORA-00942: table or view does not exist'')
   \<and> fst (validate_merge_operation relational_connector ''STG_MOLO_BOATS'' ''DW_MOLO_BOATS'' None None
         \<lparr>db = \<lparr>rel_tables = Map.empty, fetch_counts = [], fetch_rows = []\<rparr>, calls = []\<rparr>)
     = Returned (True, [])
   \<and> calls (snd (validate_merge_operation relational_connector ''STG_MOLO_BOATS'' ''DW_MOLO_BOATS'' None None
         \<lparr>db = \<lparr>rel_tables = Map.empty, fetch_counts = [], fetch_rows = []\<rparr>, calls = []\<rparr>))
     = [Execute (Select_count ''STG_MOLO_BOATS'') [], Execute (Select_count ''DW_MOLO_BOATS'') []]"
  by (simp add: validate_merge_operation_def validate_merge_operation_try_def get_row_count_def
      execute_def relational_connector_def no_such_table_def Let_def)
end
